theory Spec2Isabelle
  imports Main
begin

section \<open>Syntax trees of the input and of the output\<close>

text \<open>
  The generator reads a Go file with \<^verbatim>\<open>parser.ParseFile\<close>, works on the
  \<^verbatim>\<open>go/ast\<close> tree and hands a new tree to \<^verbatim>\<open>printer.Fprint\<close>.
  The node kinds below are those of \<^verbatim>\<open>go/ast\<close> that a struct field's type is
  built from, together with the kinds the generator itself builds (function literal,
  return and assignment statements). The kinds that can only stand inside an array
  length or the body of a function literal (composite literals, slice, type assertion
  and unary expressions, the other statements) are left out. An identifier is its
  name, a Go string, that is a list of bytes. A field list that is \<^verbatim>\<open>nil\<close> is the
  empty list. Comments are absent: the file is parsed with mode \<^verbatim>\<open>0\<close>, which
  drops them. Flag parsing and the writing of the output file, in \<^verbatim>\<open>getFlags\<close>
  and \<^verbatim>\<open>main\<close>, are outside the model.
\<close>

datatype token = token_IMPORT | token_CONST | token_TYPE | token_VAR | token_ASSIGN

datatype expr =
    Ident string
  | BasicLit string
  | Ellipsis "expr option"
  | FuncLit expr "stmt list"
  | ParenExpr expr
  | SelectorExpr expr string
  | IndexExpr expr expr
  | StarExpr expr
  | BinaryExpr expr string expr
  | CallExpr expr "expr list"
  | ArrayType "expr option" expr
  | StructType "field list"
  | FuncType "field list" "field list"
  | InterfaceType "field list"
  | MapType expr expr
  | ChanType expr
and field =
    Field (fieldNames: "string list") (fieldType: expr) (fieldTag: "string option")
and stmt =
    ReturnStmt "expr list"
  | AssignStmt "expr list" token "expr list"
  | ExprStmt expr

datatype typeSpec = TypeSpec (tsName: string) (tsType: expr)

datatype spec =
    ImportSpec string
  | ValueSpec "string list" "expr option" "expr list"
  | TypeSpecS typeSpec

datatype decl =
    BadDecl
  | GenDecl token "spec list"
  | FuncDecl "field list" string expr "stmt list"

record astFile =
  Name :: string
  Decls :: "decl list"

section \<open>Configuration, errors and outcomes\<close>

type_synonym flagStringSet = "string set"

record flagOpts =
  definitionFile :: string
  outFile :: string
  structTypeName :: string
  exportFnType :: bool
  generateForUnexportedFields :: bool
  ignoreUnsupported :: bool
  skipStructFields :: flagStringSet

text \<open>
  An error value is either made by \<^verbatim>\<open>fmt.Errorf\<close> with the message of the source,
  or is the error of the parser or of the printer, which \<^verbatim>\<open>run\<close> passes on as it is.
\<close>

datatype error = Errorf string | ParserError string | PrinterError string

text \<open>A call either panics (the process aborts) or returns.\<close>

datatype 'a outcome = Panic string | Return 'a

section \<open>Case of the first byte\<close>

text \<open>
  \<^verbatim>\<open>withFirstCharLower\<close> and \<^verbatim>\<open>withFirstCharUppper\<close> pass the one-byte string
  \<^verbatim>\<open>s[0:1]\<close> to \<^verbatim>\<open>strings.ToLower\<close> and \<^verbatim>\<open>strings.ToUpper\<close> of Go's
  library, which are modelled on such a string only. On one ASCII byte they map
  \<^verbatim>\<open>A-Z\<close> to \<^verbatim>\<open>a-z\<close> (and back) and leave every other byte as it is. A
  byte from \<^verbatim>\<open>0x80\<close> on is not valid UTF-8 by itself: the library takes the
  path through \<^verbatim>\<open>strings.Map\<close>, where the byte decodes to \<^verbatim>\<open>utf8.RuneError\<close>
  and the three bytes of \<^verbatim>\<open>U+FFFD\<close> are written in its place. In either case the
  rest \<^verbatim>\<open>s[1:]\<close> is appended as it is.
\<close>

definition runeError :: string where
  "runeError = [CHR 0xEF, CHR 0xBF, CHR 0xBD]"

definition strings_ToLower :: "char \<Rightarrow> string" where
  "strings_ToLower c =
     (let n = (of_char c :: nat) in
      if 65 \<le> n \<and> n \<le> 90 then [char_of (n + 32)]
      else if n < 128 then [c]
      else runeError)"

definition strings_ToUpper :: "char \<Rightarrow> string" where
  "strings_ToUpper c =
     (let n = (of_char c :: nat) in
      if 97 \<le> n \<and> n \<le> 122 then [char_of (n - 32)]
      else if n < 128 then [c]
      else runeError)"

fun withFirstCharLower :: "string \<Rightarrow> string" where
  "withFirstCharLower [] = []"
| "withFirstCharLower (c # cs) = strings_ToLower c @ cs"

fun withFirstCharUppper :: "string \<Rightarrow> string" where
  "withFirstCharUppper [] = []"
| "withFirstCharUppper (c # cs) = strings_ToUpper c @ cs"

text \<open>
  \<^verbatim>\<open>unicode.IsLower(rune(b))\<close> for a byte \<^verbatim>\<open>b\<close>: the rune is the code point
  of that number, which lies in Latin-1, where the lower-case letters are
  \<^verbatim>\<open>a-z\<close>, \<^verbatim>\<open>U+00B5\<close>, \<^verbatim>\<open>U+00DF-U+00F6\<close> and \<^verbatim>\<open>U+00F8-U+00FF\<close>.
\<close>

definition unicode_IsLower :: "char \<Rightarrow> bool" where
  "unicode_IsLower b =
     (let n = (of_char b :: nat) in
      (97 \<le> n \<and> n \<le> 122) \<or> n = 181 \<or> (223 \<le> n \<and> n \<le> 246) \<or> (248 \<le> n \<and> n \<le> 255))"

section \<open>Locating the struct type\<close>

fun isStructType :: "expr \<Rightarrow> bool" where
  "isStructType (StructType fs) = True"
| "isStructType e = False"

fun findInSpecs :: "spec list \<Rightarrow> string \<Rightarrow> typeSpec option" where
  "findInSpecs [] structName = None"
| "findInSpecs (TypeSpecS ts # specs) structName =
     (if isStructType (tsType ts) \<and> tsName ts = structName then Some ts
      else findInSpecs specs structName)"
| "findInSpecs (s # specs) structName = findInSpecs specs structName"

fun findInDecls :: "decl list \<Rightarrow> string \<Rightarrow> typeSpec option" where
  "findInDecls [] structName = None"
| "findInDecls (GenDecl tok specs # decls) structName =
     (if tok \<noteq> token_TYPE then findInDecls decls structName
      else (case findInSpecs specs structName of
              Some ts \<Rightarrow> Some ts
            | None \<Rightarrow> findInDecls decls structName))"
| "findInDecls (d # decls) structName = findInDecls decls structName"

definition findRequestedStructType :: "astFile \<Rightarrow> string \<Rightarrow> typeSpec option" where
  "findRequestedStructType f structName = findInDecls (Decls f) structName"

section \<open>Synthesis of the declarations\<close>

definition funcTypeIdent :: "string \<Rightarrow> bool \<Rightarrow> string" where
  "funcTypeIdent structName exportFn =
     (let casedStructName =
        (if exportFn then withFirstCharUppper structName else withFirstCharLower structName)
      in casedStructName @ ''FieldSetter'')"

definition withTypeDef :: "astFile \<Rightarrow> string \<Rightarrow> expr \<Rightarrow> astFile" where
  "withTypeDef astOut fnIdent paramType =
     (let fnType = FuncType [Field [] paramType None] [];
          typeSpec = TypeSpec fnIdent fnType
      in astOut\<lparr>Decls := Decls astOut @ [GenDecl token_TYPE [TypeSpecS typeSpec]]\<rparr>)"

definition getInnerFn :: "string \<Rightarrow> string \<Rightarrow> string \<Rightarrow> expr \<Rightarrow> expr" where
  "getInnerFn structTypeIdent fieldIdent outerParamIdent innerParamType =
     (let paramIdent = withFirstCharLower structTypeIdent @ ''Gen'' in
      FuncLit
        (FuncType [Field [paramIdent] innerParamType None] [])
        [AssignStmt [SelectorExpr (Ident paramIdent) fieldIdent] token_ASSIGN [Ident outerParamIdent]])"

text \<open>The function declaration \<^verbatim>\<open>newFunc\<close> that \<^verbatim>\<open>withFuncs\<close> builds for one field name.\<close>

definition newFunc :: "string \<Rightarrow> string \<Rightarrow> expr \<Rightarrow> string \<Rightarrow> expr \<Rightarrow> decl" where
  "newFunc structTypeIdent fieldName fieldTy fnIdent fnParamType =
     (let outerParamIdent = withFirstCharLower fieldName @ ''Gen'' in
      FuncDecl []
        (''Set'' @ withFirstCharUppper fieldName)
        (FuncType [Field [outerParamIdent] fieldTy None] [Field [] (Ident fnIdent) None])
        [ReturnStmt [getInnerFn structTypeIdent fieldName outerParamIdent fnParamType]])"

text \<open>
  \<^verbatim>\<open>ast.Inspect\<close> walks the field in depth-first order; the callback sets
  \<^verbatim>\<open>fieldContainsImport\<close> at a selector expression and does not descend below it.
  The functions give the value of the flag after the walk of a node. The names and the
  tag of a field are identifiers and a literal, which are never selectors.
\<close>

fun inspectExpr :: "expr \<Rightarrow> bool"
  and inspectField :: "field \<Rightarrow> bool"
  and inspectStmt :: "stmt \<Rightarrow> bool" where
  "inspectExpr (Ident n) = False"
| "inspectExpr (BasicLit v) = False"
| "inspectExpr (Ellipsis elt) = (case elt of None \<Rightarrow> False | Some e \<Rightarrow> inspectExpr e)"
| "inspectExpr (FuncLit ty body) = (inspectExpr ty \<or> (\<exists>s\<in>set body. inspectStmt s))"
| "inspectExpr (ParenExpr x) = inspectExpr x"
| "inspectExpr (SelectorExpr x sel) = True"
| "inspectExpr (IndexExpr x i) = (inspectExpr x \<or> inspectExpr i)"
| "inspectExpr (StarExpr x) = inspectExpr x"
| "inspectExpr (BinaryExpr x opr y) = (inspectExpr x \<or> inspectExpr y)"
| "inspectExpr (CallExpr fn args) = (inspectExpr fn \<or> (\<exists>a\<in>set args. inspectExpr a))"
| "inspectExpr (ArrayType len elt) =
     ((case len of None \<Rightarrow> False | Some l \<Rightarrow> inspectExpr l) \<or> inspectExpr elt)"
| "inspectExpr (StructType flds) = (\<exists>f\<in>set flds. inspectField f)"
| "inspectExpr (FuncType params results) =
     ((\<exists>f\<in>set params. inspectField f) \<or> (\<exists>f\<in>set results. inspectField f))"
| "inspectExpr (InterfaceType methods) = (\<exists>f\<in>set methods. inspectField f)"
| "inspectExpr (MapType k v) = (inspectExpr k \<or> inspectExpr v)"
| "inspectExpr (ChanType v) = inspectExpr v"
| "inspectField (Field names ty tag) = inspectExpr ty"
| "inspectStmt (ReturnStmt results) = (\<exists>e\<in>set results. inspectExpr e)"
| "inspectStmt (AssignStmt lhs tok rhs) =
     ((\<exists>e\<in>set lhs. inspectExpr e) \<or> (\<exists>e\<in>set rhs. inspectExpr e))"
| "inspectStmt (ExprStmt x) = inspectExpr x"

definition fieldContainsImport :: "field \<Rightarrow> bool" where
  "fieldContainsImport fld = inspectField fld"

text \<open>
  The inner loop of \<^verbatim>\<open>withFuncs\<close> over the names of one field group. The state is
  the output file and \<^verbatim>\<open>numFnsAdded\<close>. Indexing \<^verbatim>\<open>fieldName.Name[0]\<close> panics on
  an empty name.
\<close>

fun namesLoop ::
  "string \<Rightarrow> string \<Rightarrow> expr \<Rightarrow> bool \<Rightarrow> flagStringSet \<Rightarrow> expr \<Rightarrow> string list \<Rightarrow>
   astFile \<times> nat \<Rightarrow> (astFile \<times> nat) outcome" where
  "namesLoop structTypeIdent fnIdent fnParamType genUnexported skip fieldTy [] st = Return st"
| "namesLoop structTypeIdent fnIdent fnParamType genUnexported skip fieldTy (fieldName # names)
     (astOut, numFnsAdded) =
     (if fieldName \<in> skip then
        namesLoop structTypeIdent fnIdent fnParamType genUnexported skip fieldTy names
          (astOut, numFnsAdded)
      else (case fieldName of
          [] \<Rightarrow> Panic ''index out of range''
        | b # rest \<Rightarrow>
          if unicode_IsLower b \<and> \<not> genUnexported then
            namesLoop structTypeIdent fnIdent fnParamType genUnexported skip fieldTy names
              (astOut, numFnsAdded)
          else
            namesLoop structTypeIdent fnIdent fnParamType genUnexported skip fieldTy names
              (astOut\<lparr>Decls := Decls astOut @
                 [newFunc structTypeIdent fieldName fieldTy fnIdent fnParamType]\<rparr>,
               numFnsAdded + 1)))"

text \<open>The outer loop over the field groups; it returns at the first rejected group.\<close>

fun fieldsLoop ::
  "string \<Rightarrow> string \<Rightarrow> expr \<Rightarrow> bool \<Rightarrow> bool \<Rightarrow> flagStringSet \<Rightarrow> field list \<Rightarrow>
   astFile \<times> nat \<Rightarrow> ((astFile \<times> nat) \<times> error option) outcome" where
  "fieldsLoop structTypeIdent fnIdent fnParamType genUnexported ignoreUnsup skip [] st =
     Return (st, None)"
| "fieldsLoop structTypeIdent fnIdent fnParamType genUnexported ignoreUnsup skip (fld # flds) st =
     (if fieldNames fld = [] then
        (if ignoreUnsup then
           fieldsLoop structTypeIdent fnIdent fnParamType genUnexported ignoreUnsup skip flds st
         else Return (st, Some (Errorf ''embedded fields disallowed'')))
      else if fieldContainsImport fld then
        (if ignoreUnsup then
           fieldsLoop structTypeIdent fnIdent fnParamType genUnexported ignoreUnsup skip flds st
         else Return (st, Some (Errorf ''cannot generate for fields whose type is imported'')))
      else (case namesLoop structTypeIdent fnIdent fnParamType genUnexported skip
                   (fieldType fld) (fieldNames fld) st of
              Panic msg \<Rightarrow> Panic msg
            | Return st' \<Rightarrow>
                fieldsLoop structTypeIdent fnIdent fnParamType genUnexported ignoreUnsup skip
                  flds st'))"

text \<open>
  \<^verbatim>\<open>withFuncs\<close> changes the output file in place and returns an error or
  \<^verbatim>\<open>nil\<close>; the model returns the file as it then is, with the error.
\<close>

definition withFuncs ::
  "astFile \<Rightarrow> typeSpec \<Rightarrow> string \<Rightarrow> expr \<Rightarrow> bool \<Rightarrow> bool \<Rightarrow> flagStringSet \<Rightarrow>
   (astFile \<times> error option) outcome" where
  "withFuncs astOut structType fnIdent fnParamType genUnexported ignoreUnsup skip =
     (case tsType structType of
        StructType flds \<Rightarrow>
          (case fieldsLoop (tsName structType) fnIdent fnParamType genUnexported ignoreUnsup
                  skip flds (astOut, 0) of
             Panic msg \<Rightarrow> Panic msg
           | Return ((astOut', numFnsAdded), Some err) \<Rightarrow> Return (astOut', Some err)
           | Return ((astOut', numFnsAdded), None) \<Rightarrow>
               if numFnsAdded = 0 then
                 Return (astOut', Some (Errorf ''no fields in struct (aside from ignored errors)''))
               else Return (astOut', None))
      | _ \<Rightarrow> Panic ''bad type for struct type'')"

section \<open>The run\<close>

text \<open>
  \<^verbatim>\<open>run\<close> calls two collaborators: \<^verbatim>\<open>parser.ParseFile\<close> on the definition file and
  \<^verbatim>\<open>printer.Fprint\<close> on the synthesized file. They are parameters here: the parser
  maps a file name to a tree or to the message of its error, the printer maps a tree to
  the text written into the buffer or to the message of its error.
\<close>

definition run ::
  "(string \<Rightarrow> string + astFile) \<Rightarrow> (astFile \<Rightarrow> string + 'o) \<Rightarrow> flagOpts \<Rightarrow>
   (error + 'o) outcome" where
  "run parser_ParseFile printer_Fprint opts =
     (case parser_ParseFile (definitionFile opts) of
        Inl msg \<Rightarrow> Return (Inl (ParserError msg))
      | Inr astF \<Rightarrow>
         (case findRequestedStructType astF (structTypeName opts) of
            None \<Rightarrow> Return (Inl (Errorf ''could not find struct type in definition file''))
          | Some structType \<Rightarrow>
             (let fnTypeIdent = funcTypeIdent (tsName structType) (exportFnType opts);
                  fnParamType = StarExpr (Ident (tsName structType));
                  astOut = \<lparr>Name = Name astF, Decls = []\<rparr>;
                  astOut1 = withTypeDef astOut fnTypeIdent fnParamType
              in (case withFuncs astOut1 structType fnTypeIdent fnParamType
                         (generateForUnexportedFields opts) (ignoreUnsupported opts)
                         (skipStructFields opts) of
                    Panic msg \<Rightarrow> Panic msg
                  | Return (astOut2, Some err) \<Rightarrow> Return (Inl err)
                  | Return (astOut2, None) \<Rightarrow>
                      (case printer_Fprint astOut2 of
                         Inl msg \<Rightarrow> Return (Inl (PrinterError msg))
                       | Inr out \<Rightarrow> Return (Inr out))))))"

section \<open>Vocabulary of the specification\<close>

text \<open>
  The nodes of a type expression, the node itself first: "anywhere in its syntax" means
  at one of these nodes.
\<close>

fun exprNodes :: "expr \<Rightarrow> expr list"
  and fieldNodes :: "field \<Rightarrow> expr list"
  and stmtNodes :: "stmt \<Rightarrow> expr list" where
  "exprNodes (Ident n) = [Ident n]"
| "exprNodes (BasicLit v) = [BasicLit v]"
| "exprNodes (Ellipsis elt) =
     Ellipsis elt # (case elt of None \<Rightarrow> [] | Some e \<Rightarrow> exprNodes e)"
| "exprNodes (FuncLit ty body) = FuncLit ty body # exprNodes ty @ concat (map stmtNodes body)"
| "exprNodes (ParenExpr x) = ParenExpr x # exprNodes x"
| "exprNodes (SelectorExpr x sel) = SelectorExpr x sel # exprNodes x"
| "exprNodes (IndexExpr x i) = IndexExpr x i # exprNodes x @ exprNodes i"
| "exprNodes (StarExpr x) = StarExpr x # exprNodes x"
| "exprNodes (BinaryExpr x opr y) = BinaryExpr x opr y # exprNodes x @ exprNodes y"
| "exprNodes (CallExpr fn args) = CallExpr fn args # exprNodes fn @ concat (map exprNodes args)"
| "exprNodes (ArrayType len elt) =
     ArrayType len elt # (case len of None \<Rightarrow> [] | Some l \<Rightarrow> exprNodes l) @ exprNodes elt"
| "exprNodes (StructType flds) = StructType flds # concat (map fieldNodes flds)"
| "exprNodes (FuncType params results) =
     FuncType params results # concat (map fieldNodes params) @ concat (map fieldNodes results)"
| "exprNodes (InterfaceType methods) = InterfaceType methods # concat (map fieldNodes methods)"
| "exprNodes (MapType k v) = MapType k v # exprNodes k @ exprNodes v"
| "exprNodes (ChanType v) = ChanType v # exprNodes v"
| "fieldNodes (Field names ty tag) = exprNodes ty"
| "stmtNodes (ReturnStmt results) = concat (map exprNodes results)"
| "stmtNodes (AssignStmt lhs tok rhs) = concat (map exprNodes lhs) @ concat (map exprNodes rhs)"
| "stmtNodes (ExprStmt x) = exprNodes x"

text \<open>A qualified reference \<^verbatim>\<open>package.Identifier\<close> is a selector expression.\<close>

fun isSelectorExpr :: "expr \<Rightarrow> bool" where
  "isSelectorExpr (SelectorExpr x sel) = True"
| "isSelectorExpr e = False"

definition referencesImportedPackage :: "expr \<Rightarrow> bool" where
  "referencesImportedPackage ty = (\<exists>n\<in>set (exprNodes ty). isSelectorExpr n)"

definition embedded :: "field \<Rightarrow> bool" where
  "embedded fld = (fieldNames fld = [])"

definition unsupported :: "field \<Rightarrow> bool" where
  "unsupported fld = (embedded fld \<or> referencesImportedPackage (fieldType fld))"

text \<open>The two messages of an unsupported field group.\<close>

definition rejection :: "field \<Rightarrow> error" where
  "rejection fld =
     (if embedded fld then Errorf ''embedded fields disallowed''
      else Errorf ''cannot generate for fields whose type is imported'')"

text \<open>The unexported-field test of the code: the first byte, read as a character.\<close>

definition unexported :: "string \<Rightarrow> bool" where
  "unexported name = (case name of [] \<Rightarrow> False | b # rest \<Rightarrow> unicode_IsLower b)"

text \<open>
  The fields of a struct in the order of the source: the groups in declaration order,
  the names of a group in their order. A field is a group together with one of its names.
\<close>

definition fieldOccurrences :: "field list \<Rightarrow> (field \<times> string) list" where
  "fieldOccurrences flds = concat (map (\<lambda>fld. map (\<lambda>n. (fld, n)) (fieldNames fld)) flds)"

text \<open>The four exclusion rules for one field.\<close>

definition excluded :: "bool \<Rightarrow> flagStringSet \<Rightarrow> field \<Rightarrow> string \<Rightarrow> bool" where
  "excluded genUnexported skip fld n =
     (embedded fld \<or> referencesImportedPackage (fieldType fld) \<or> n \<in> skip \<or>
      (unexported n \<and> \<not> genUnexported))"

definition generatedFields ::
  "bool \<Rightarrow> flagStringSet \<Rightarrow> field list \<Rightarrow> (field \<times> string) list" where
  "generatedFields genUnexported skip flds =
     filter (\<lambda>(fld, n). \<not> excluded genUnexported skip fld n) (fieldOccurrences flds)"

text \<open>The function-type declaration and the setter of one field, as the run builds them.\<close>

definition typeDecl :: "string \<Rightarrow> bool \<Rightarrow> decl" where
  "typeDecl structName exportFn =
     GenDecl token_TYPE
       [TypeSpecS (TypeSpec (funcTypeIdent structName exportFn)
          (FuncType [Field [] (StarExpr (Ident structName)) None] []))]"

definition setterDecl :: "string \<Rightarrow> bool \<Rightarrow> field \<times> string \<Rightarrow> decl" where
  "setterDecl structName exportFn occ =
     newFunc structName (snd occ) (fieldType (fst occ)) (funcTypeIdent structName exportFn)
       (StarExpr (Ident structName))"

text \<open>Observations on a declaration of the output.\<close>

fun declName :: "decl \<Rightarrow> string" where
  "declName (FuncDecl recv name ty body) = name"
| "declName (GenDecl tok [TypeSpecS ts]) = tsName ts"
| "declName d = []"

text \<open>The field that a setter assigns: the selector on the left of its assignment.\<close>

fun assignedField :: "decl \<Rightarrow> string option" where
  "assignedField (FuncDecl recv name ty
      [ReturnStmt [FuncLit lty [AssignStmt [SelectorExpr x sel] tok rhs]]]) = Some sel"
| "assignedField d = None"

fun declNames :: "(error + astFile) outcome \<Rightarrow> string list" where
  "declNames (Return (Inr astOut)) = map declName (Decls astOut)"
| "declNames r = []"

text \<open>The type declarations at the top level of a file, in file order.\<close>

fun typeSpecsOf :: "decl \<Rightarrow> typeSpec list" where
  "typeSpecsOf (GenDecl tok specs) =
     (if tok = token_TYPE
      then concat (map (\<lambda>s. case s of TypeSpecS ts \<Rightarrow> [ts] | _ \<Rightarrow> []) specs)
      else [])"
| "typeSpecsOf d = []"

definition topLevelTypeDecls :: "astFile \<Rightarrow> typeSpec list" where
  "topLevelTypeDecls f = concat (map typeSpecsOf (Decls f))"

text \<open>
  What the identifier on the right of a setter's assignment refers to. Go resolves an
  identifier in the innermost scope that declares it: the parameters of the function
  literal come before the parameters of the enclosing function.
\<close>

datatype binding = ClosureParam | SetterParam

fun paramNames :: "expr \<Rightarrow> string list" where
  "paramNames (FuncType params results) = concat (map fieldNames params)"
| "paramNames e = []"

fun rhsBinding :: "decl \<Rightarrow> binding option" where
  "rhsBinding (FuncDecl recv name ty
      [ReturnStmt [FuncLit lty [AssignStmt lhs tok [Ident r]]]]) =
     (if r \<in> set (paramNames lty) then Some ClosureParam
      else if r \<in> set (paramNames ty) then Some SetterParam
      else None)"
| "rhsBinding d = None"

text \<open>
  Upper- and lower-casing the first byte of a name as ASCII: \<^verbatim>\<open>a-z\<close> and
  \<^verbatim>\<open>A-Z\<close> differ by 32, every other byte stays.
\<close>

definition asciiFirst :: "string \<Rightarrow> bool" where
  "asciiFirst s = (case s of [] \<Rightarrow> True | c # cs \<Rightarrow> (of_char c :: nat) < 128)"

definition upperFirst :: "string \<Rightarrow> string" where
  "upperFirst s =
     (case s of
        [] \<Rightarrow> []
      | c # cs \<Rightarrow>
          (if 97 \<le> (of_char c :: nat) \<and> (of_char c :: nat) \<le> 122
           then char_of ((of_char c :: nat) - 32) else c) # cs)"

definition lowerFirst :: "string \<Rightarrow> string" where
  "lowerFirst s =
     (case s of
        [] \<Rightarrow> []
      | c # cs \<Rightarrow>
          (if 65 \<le> (of_char c :: nat) \<and> (of_char c :: nat) \<le> 90
           then char_of ((of_char c :: nat) + 32) else c) # cs)"




section \<open>Auxiliary definitions of the proofs\<close>

definition generate :: "bool \<Rightarrow> flagStringSet \<Rightarrow> string \<Rightarrow> bool" where
  "generate genUnexported skip name =
     (name \<notin> skip \<and> \<not> (unexported name \<and> \<not> genUnexported))"

text \<open>A group at which the outer loop stops: a rejected group, or one with a name that panics.\<close>

definition stops :: "bool \<Rightarrow> flagStringSet \<Rightarrow> field \<Rightarrow> bool" where
  "stops ignoreUnsup skip fld =
     (if unsupported fld then \<not> ignoreUnsup
      else [] \<in> set (fieldNames fld) \<and> [] \<notin> skip)"

definition addFuncs ::
  "string \<Rightarrow> string \<Rightarrow> expr \<Rightarrow> (field \<times> string) list \<Rightarrow> astFile \<times> nat \<Rightarrow> astFile \<times> nat" where
  "addFuncs S F P occs st =
     ((fst st)\<lparr>Decls := Decls (fst st) @
                  map (\<lambda>occ. newFunc S (snd occ) (fieldType (fst occ)) F P) occs\<rparr>,
      snd st + length occs)"

text \<open>A parser that yields the given tree.\<close>

text \<open>The result of the run for a result of the printer.\<close>

definition passOn :: "string + 'o \<Rightarrow> (error + 'o) outcome" where
  "passOn r = (case r of Inl msg \<Rightarrow> Return (Inl (PrinterError msg)) | Inr out \<Rightarrow> Return (Inr out))"

definition parsesTo :: "astFile \<Rightarrow> string \<Rightarrow> string + astFile" where
  "parsesTo f name = Inr f"

section \<open>Example inputs\<close>

text \<open>
  The struct of the README:
  \<^verbatim>\<open>type A struct { B string; C int; D bool; e float32; F interface{} }\<close>.
\<close>

definition fieldsA :: "field list" where
  "fieldsA =
     [Field [''B''] (Ident ''string'') None,
      Field [''C''] (Ident ''int'') None,
      Field [''D''] (Ident ''bool'') None,
      Field [''e''] (Ident ''float32'') None,
      Field [''F''] (InterfaceType []) None]"

definition fileA :: astFile where
  "fileA =
     \<lparr>Name = ''genbuildertest'',
      Decls = [GenDecl token_TYPE [TypeSpecS (TypeSpec ''A'' (StructType fieldsA))]]\<rparr>"

definition optsA :: flagOpts where
  "optsA =
     \<lparr>definitionFile = ''struct_def.go'', outFile = [], structTypeName = ''A'',
      exportFnType = True, generateForUnexportedFields = False, ignoreUnsupported = True,
      skipStructFields = {}\<rparr>"

text \<open>A file whose type \<^verbatim>\<open>A\<close> is not a struct: \<^verbatim>\<open>type A string\<close>.\<close>

definition fileStringA :: astFile where
  "fileStringA =
     \<lparr>Name = ''genbuildertest'',
      Decls = [GenDecl token_TYPE [TypeSpecS (TypeSpec ''A'' (Ident ''string''))]]\<rparr>"

text \<open>The output that the README shows for this struct.\<close>

definition fileA_out :: astFile where
  "fileA_out =
     \<lparr>Name = ''genbuildertest'',
      Decls =
        [GenDecl token_TYPE
           [TypeSpecS (TypeSpec ''AFieldSetter''
              (FuncType [Field [] (StarExpr (Ident ''A'')) None] []))],
         FuncDecl [] ''SetB''
           (FuncType [Field [''bGen''] (Ident ''string'') None]
              [Field [] (Ident ''AFieldSetter'') None])
           [ReturnStmt [FuncLit (FuncType [Field [''aGen''] (StarExpr (Ident ''A'')) None] [])
              [AssignStmt [SelectorExpr (Ident ''aGen'') ''B''] token_ASSIGN [Ident ''bGen'']]]],
         FuncDecl [] ''SetC''
           (FuncType [Field [''cGen''] (Ident ''int'') None]
              [Field [] (Ident ''AFieldSetter'') None])
           [ReturnStmt [FuncLit (FuncType [Field [''aGen''] (StarExpr (Ident ''A'')) None] [])
              [AssignStmt [SelectorExpr (Ident ''aGen'') ''C''] token_ASSIGN [Ident ''cGen'']]]],
         FuncDecl [] ''SetD''
           (FuncType [Field [''dGen''] (Ident ''bool'') None]
              [Field [] (Ident ''AFieldSetter'') None])
           [ReturnStmt [FuncLit (FuncType [Field [''aGen''] (StarExpr (Ident ''A'')) None] [])
              [AssignStmt [SelectorExpr (Ident ''aGen'') ''D''] token_ASSIGN [Ident ''dGen'']]]],
         FuncDecl [] ''SetF''
           (FuncType [Field [''fGen''] (InterfaceType []) None]
              [Field [] (Ident ''AFieldSetter'') None])
           [ReturnStmt [FuncLit (FuncType [Field [''aGen''] (StarExpr (Ident ''A'')) None] [])
              [AssignStmt [SelectorExpr (Ident ''aGen'') ''F''] token_ASSIGN [Ident ''fGen'']]]]]\<rparr>"

text \<open>A struct whose two fields are both in the skip set.\<close>

definition fieldsCD :: "field list" where
  "fieldsCD = [Field [''C''] (Ident ''int'') None, Field [''D''] (Ident ''bool'') None]"

definition fileCD :: astFile where
  "fileCD =
     \<lparr>Name = ''genbuildertest'',
      Decls = [GenDecl token_TYPE [TypeSpecS (TypeSpec ''A'' (StructType fieldsCD))]]\<rparr>"

definition optsSkipCD :: flagOpts where
  "optsSkipCD =
     \<lparr>definitionFile = ''struct_def.go'', outFile = [], structTypeName = ''A'',
      exportFnType = True, generateForUnexportedFields = False, ignoreUnsupported = False,
      skipStructFields = {''C'', ''D''}\<rparr>"

text \<open>
  A struct with a field of the imported type \<^verbatim>\<open>*otherpkg.Thing\<close>, read with
  \<^verbatim>\<open>ignoreUnsupported\<close> false and that field's name in the skip set.
\<close>

definition fieldsImp :: "field list" where
  "fieldsImp =
     [Field [''B''] (Ident ''string'') None,
      Field [''X''] (StarExpr (SelectorExpr (Ident ''otherpkg'') ''Thing'')) None]"

definition fileImp :: astFile where
  "fileImp =
     \<lparr>Name = ''genbuildertest'',
      Decls = [GenDecl token_TYPE [TypeSpecS (TypeSpec ''A'' (StructType fieldsImp))]]\<rparr>"

definition optsStrictSkipX :: flagOpts where
  "optsStrictSkipX =
     \<lparr>definitionFile = ''struct_def.go'', outFile = [], structTypeName = ''A'',
      exportFnType = True, generateForUnexportedFields = False, ignoreUnsupported = False,
      skipStructFields = {''X''}\<rparr>"

text \<open>
  Two fields whose names differ in the case of the first character:
  \<^verbatim>\<open>type S struct { foo int; Foo int }\<close>, and the output for it.
\<close>

definition fileFoo :: astFile where
  "fileFoo =
     \<lparr>Name = ''genbuildertest'',
      Decls = [GenDecl token_TYPE [TypeSpecS (TypeSpec ''S'' (StructType
        [Field [''foo''] (Ident ''int'') None,
         Field [''Foo''] (Ident ''int'') None]))]]\<rparr>"

definition optsFoo :: flagOpts where
  "optsFoo =
     \<lparr>definitionFile = ''struct_def.go'', outFile = [], structTypeName = ''S'',
      exportFnType = True, generateForUnexportedFields = True, ignoreUnsupported = True,
      skipStructFields = {}\<rparr>"

definition fileFoo_out :: astFile where
  "fileFoo_out =
     \<lparr>Name = ''genbuildertest'',
      Decls =
        [GenDecl token_TYPE
           [TypeSpecS (TypeSpec ''SFieldSetter''
              (FuncType [Field [] (StarExpr (Ident ''S'')) None] []))],
         FuncDecl [] ''SetFoo''
           (FuncType [Field [''fooGen''] (Ident ''int'') None]
              [Field [] (Ident ''SFieldSetter'') None])
           [ReturnStmt [FuncLit (FuncType [Field [''sGen''] (StarExpr (Ident ''S'')) None] [])
              [AssignStmt [SelectorExpr (Ident ''sGen'') ''foo''] token_ASSIGN
                 [Ident ''fooGen'']]]],
         FuncDecl [] ''SetFoo''
           (FuncType [Field [''fooGen''] (Ident ''int'') None]
              [Field [] (Ident ''SFieldSetter'') None])
           [ReturnStmt [FuncLit (FuncType [Field [''sGen''] (StarExpr (Ident ''S'')) None] [])
              [AssignStmt [SelectorExpr (Ident ''sGen'') ''Foo''] token_ASSIGN
                 [Ident ''fooGen'']]]]]\<rparr>"

text \<open>
  A field with the name of its struct: \<^verbatim>\<open>type A struct { A int; B string }\<close>, and
  the output for it.
\<close>

definition fieldsAA :: "field list" where
  "fieldsAA = [Field [''A''] (Ident ''int'') None, Field [''B''] (Ident ''string'') None]"

definition fileAA :: astFile where
  "fileAA =
     \<lparr>Name = ''genbuildertest'',
      Decls = [GenDecl token_TYPE [TypeSpecS (TypeSpec ''A'' (StructType fieldsAA))]]\<rparr>"

definition fileAA_out :: astFile where
  "fileAA_out =
     \<lparr>Name = ''genbuildertest'',
      Decls =
        [GenDecl token_TYPE
           [TypeSpecS (TypeSpec ''AFieldSetter''
              (FuncType [Field [] (StarExpr (Ident ''A'')) None] []))],
         FuncDecl [] ''SetA''
           (FuncType [Field [''aGen''] (Ident ''int'') None]
              [Field [] (Ident ''AFieldSetter'') None])
           [ReturnStmt [FuncLit (FuncType [Field [''aGen''] (StarExpr (Ident ''A'')) None] [])
              [AssignStmt [SelectorExpr (Ident ''aGen'') ''A''] token_ASSIGN [Ident ''aGen'']]]],
         FuncDecl [] ''SetB''
           (FuncType [Field [''bGen''] (Ident ''string'') None]
              [Field [] (Ident ''AFieldSetter'') None])
           [ReturnStmt [FuncLit (FuncType [Field [''aGen''] (StarExpr (Ident ''A'')) None] [])
              [AssignStmt [SelectorExpr (Ident ''aGen'') ''B''] token_ASSIGN [Ident ''bGen'']]]]]\<rparr>"

text \<open>
  A field whose name is the letter e with acute accent, in UTF-8 the two bytes
  \<^verbatim>\<open>C3 A9\<close>; the capital letter is \<^verbatim>\<open>C3 89\<close>.
\<close>

definition nameEacute :: string where
  "nameEacute = [CHR 0xC3, CHR 0xA9]"

definition fileEacute :: astFile where
  "fileEacute =
     \<lparr>Name = ''genbuildertest'',
      Decls = [GenDecl token_TYPE [TypeSpecS (TypeSpec ''A'' (StructType
        [Field [nameEacute] (Ident ''int'') None]))]]\<rparr>"

text \<open>
  A field whose name is the lower-case letter \<^verbatim>\<open>U+1E01\<close> (a with ring below), in
  UTF-8 the three bytes \<^verbatim>\<open>E1 B8 81\<close>, and a field whose name starts with an
  underscore; the output for this struct with the options of the README.
\<close>

definition nameU :: string where
  "nameU = [CHR 0xE1, CHR 0xB8, CHR 0x81]"

definition fieldsU :: "field list" where
  "fieldsU = [Field [nameU] (Ident ''int'') None, Field [''_x''] (Ident ''int'') None]"

definition fileU :: astFile where
  "fileU =
     \<lparr>Name = ''genbuildertest'',
      Decls = [GenDecl token_TYPE [TypeSpecS (TypeSpec ''A'' (StructType fieldsU))]]\<rparr>"

definition fileU_out :: astFile where
  "fileU_out =
     \<lparr>Name = ''genbuildertest'',
      Decls =
        [GenDecl token_TYPE
           [TypeSpecS (TypeSpec ''AFieldSetter''
              (FuncType [Field [] (StarExpr (Ident ''A'')) None] []))],
         FuncDecl [] ''Set_x''
           (FuncType [Field [''_xGen''] (Ident ''int'') None]
              [Field [] (Ident ''AFieldSetter'') None])
           [ReturnStmt [FuncLit (FuncType [Field [''aGen''] (StarExpr (Ident ''A'')) None] [])
              [AssignStmt [SelectorExpr (Ident ''aGen'') ''_x''] token_ASSIGN
                 [Ident ''_xGen'']]]]]\<rparr>"


text \<open>
  A file with several declarations: an import, a type group with a struct \<^verbatim>\<open>B\<close> and
  a string type \<^verbatim>\<open>A\<close>, a function, a variable \<^verbatim>\<open>A\<close>, and then two struct types
  named \<^verbatim>\<open>A\<close>.
\<close>

definition fileMulti :: astFile where
  "fileMulti =
     \<lparr>Name = ''genbuildertest'',
      Decls =
        [GenDecl token_IMPORT [ImportSpec ''fmt''],
         GenDecl token_TYPE
           [TypeSpecS (TypeSpec ''B'' (StructType fieldsCD)),
            TypeSpecS (TypeSpec ''A'' (Ident ''string''))],
         FuncDecl [] ''f'' (FuncType [] []) [],
         GenDecl token_VAR [ValueSpec [''A''] (Some (StructType fieldsCD)) []],
         GenDecl token_TYPE [TypeSpecS (TypeSpec ''A'' (StructType fieldsA))],
         GenDecl token_TYPE [TypeSpecS (TypeSpec ''A'' (StructType fieldsCD))]]\<rparr>"

text \<open>
  A field whose name differs from the name of its struct in the case of the first letter:
  \<^verbatim>\<open>type Foo struct { foo int; Bar int }\<close>, and the output for it.
\<close>

definition fileFooS :: astFile where
  "fileFooS =
     \<lparr>Name = ''genbuildertest'',
      Decls = [GenDecl token_TYPE [TypeSpecS (TypeSpec ''Foo'' (StructType
        [Field [''foo''] (Ident ''int'') None,
         Field [''Bar''] (Ident ''int'') None]))]]\<rparr>"

definition optsFooS :: flagOpts where
  "optsFooS =
     \<lparr>definitionFile = ''struct_def.go'', outFile = [], structTypeName = ''Foo'',
      exportFnType = True, generateForUnexportedFields = True, ignoreUnsupported = True,
      skipStructFields = {}\<rparr>"

definition fileFooS_out :: astFile where
  "fileFooS_out =
     \<lparr>Name = ''genbuildertest'',
      Decls =
        [GenDecl token_TYPE
           [TypeSpecS (TypeSpec ''FooFieldSetter''
              (FuncType [Field [] (StarExpr (Ident ''Foo'')) None] []))],
         FuncDecl [] ''SetFoo''
           (FuncType [Field [''fooGen''] (Ident ''int'') None]
              [Field [] (Ident ''FooFieldSetter'') None])
           [ReturnStmt [FuncLit (FuncType [Field [''fooGen''] (StarExpr (Ident ''Foo'')) None] [])
              [AssignStmt [SelectorExpr (Ident ''fooGen'') ''foo''] token_ASSIGN
                 [Ident ''fooGen'']]]],
         FuncDecl [] ''SetBar''
           (FuncType [Field [''barGen''] (Ident ''int'') None]
              [Field [] (Ident ''FooFieldSetter'') None])
           [ReturnStmt [FuncLit (FuncType [Field [''fooGen''] (StarExpr (Ident ''Foo'')) None] [])
              [AssignStmt [SelectorExpr (Ident ''fooGen'') ''Bar''] token_ASSIGN
                 [Ident ''barGen'']]]]]\<rparr>"

text \<open>
  A struct named with the capital letter E with acute accent (bytes \<^verbatim>\<open>C3 89\<close>)
  that has the field named with the small letter (bytes \<^verbatim>\<open>C3 A9\<close>), and the output
  for it.
\<close>

definition nameEcap :: string where
  "nameEcap = [CHR 0xC3, CHR 0x89]"

definition fileEE :: astFile where
  "fileEE =
     \<lparr>Name = ''genbuildertest'',
      Decls = [GenDecl token_TYPE [TypeSpecS (TypeSpec nameEcap (StructType
        [Field [nameEacute] (Ident ''int'') None]))]]\<rparr>"

definition optsEE :: flagOpts where
  "optsEE =
     \<lparr>definitionFile = ''struct_def.go'', outFile = [], structTypeName = nameEcap,
      exportFnType = True, generateForUnexportedFields = False, ignoreUnsupported = True,
      skipStructFields = {}\<rparr>"

definition fileEE_out :: astFile where
  "fileEE_out =
     \<lparr>Name = ''genbuildertest'',
      Decls =
        [GenDecl token_TYPE
           [TypeSpecS (TypeSpec ([CHR 0xEF, CHR 0xBF, CHR 0xBD, CHR 0x89] @ ''FieldSetter'')
              (FuncType [Field [] (StarExpr (Ident nameEcap)) None] []))],
         FuncDecl [] (''Set'' @ [CHR 0xEF, CHR 0xBF, CHR 0xBD, CHR 0xA9])
           (FuncType
              [Field [[CHR 0xEF, CHR 0xBF, CHR 0xBD, CHR 0xA9] @ ''Gen''] (Ident ''int'') None]
              [Field [] (Ident ([CHR 0xEF, CHR 0xBF, CHR 0xBD, CHR 0x89] @ ''FieldSetter''))
                 None])
           [ReturnStmt [FuncLit
              (FuncType
                 [Field [[CHR 0xEF, CHR 0xBF, CHR 0xBD, CHR 0x89] @ ''Gen'']
                    (StarExpr (Ident nameEcap)) None] [])
              [AssignStmt
                 [SelectorExpr (Ident ([CHR 0xEF, CHR 0xBF, CHR 0xBD, CHR 0x89] @ ''Gen''))
                    nameEacute]
                 token_ASSIGN
                 [Ident ([CHR 0xEF, CHR 0xBF, CHR 0xBD, CHR 0xA9] @ ''Gen'')]]]]]\<rparr>"

section \<open>Properties of the model\<close>

subsection \<open>The walk and the nodes\<close>

lemma inspect_nodes:
  "inspectExpr e = (\<exists>n\<in>set (exprNodes e). isSelectorExpr n)"
  "inspectField f = (\<exists>n\<in>set (fieldNodes f). isSelectorExpr n)"
  "inspectStmt s = (\<exists>n\<in>set (stmtNodes s). isSelectorExpr n)"
  by (induction e and f and s) (auto split: option.splits)

lemma fieldContainsImport_iff:
  "fieldContainsImport fld = referencesImportedPackage (fieldType fld)"
  by (cases fld) (simp add: fieldContainsImport_def referencesImportedPackage_def inspect_nodes(1))

subsection \<open>The loops\<close>

lemma namesLoop_eq:
  "namesLoop S F P g skip ty names (out, k) =
     (if [] \<in> set names \<and> [] \<notin> skip then Panic ''index out of range''
      else Return (out\<lparr>Decls := Decls out @
                      map (\<lambda>n. newFunc S n ty F P) (filter (generate g skip) names)\<rparr>,
                   k + length (filter (generate g skip) names)))"
proof (induction names arbitrary: out k)
  case Nil
  show ?case by simp
next
  case (Cons n ns)
  show ?case
  proof (cases "n \<in> skip")
    case True
    then have "\<not> generate g skip n" by (simp add: generate_def)
    with True show ?thesis using Cons.IH [of out k] by auto
  next
    case False
    show ?thesis
    proof (cases n)
      case Nil
      with False show ?thesis by simp
    next
      case nm: (Cons b rest)
      show ?thesis
      proof (cases "unicode_IsLower b \<and> \<not> g")
        case True
        then have "\<not> generate g skip n" using nm by (simp add: generate_def unexported_def)
        with True False nm show ?thesis
          using Cons.IH [of out k] by auto
      next
        case nl: False
        have "generate g skip n" using False nm nl by (auto simp: generate_def unexported_def)
        then show ?thesis
          using False nm nl
            Cons.IH [of "out\<lparr>Decls := Decls out @ [newFunc S n ty F P]\<rparr>" "k + 1"]
          by auto
      qed
    qed
  qed
qed

lemma addFuncs_Nil: "addFuncs S F P [] st = st"
  by (simp add: addFuncs_def)

lemma addFuncs_append:
  "addFuncs S F P (es @ es') st = addFuncs S F P es' (addFuncs S F P es st)"
  by (simp add: addFuncs_def)

lemma generatedFields_Nil: "generatedFields g skip [] = []"
  by (simp add: generatedFields_def fieldOccurrences_def)

lemma generatedFields_Cons:
  "generatedFields g skip (fld # flds) =
     (if unsupported fld then []
      else map (\<lambda>n. (fld, n)) (filter (generate g skip) (fieldNames fld)))
     @ generatedFields g skip flds"
proof -
  have "filter (\<lambda>(f, n). \<not> excluded g skip f n) (map (\<lambda>n. (fld, n)) (fieldNames fld)) =
      (if unsupported fld then []
       else map (\<lambda>n. (fld, n)) (filter (generate g skip) (fieldNames fld)))"
    by (induction "fieldNames fld")
       (auto simp: filter_map comp_def excluded_def unsupported_def generate_def
          intro!: filter_cong)
  then show ?thesis
    by (simp add: generatedFields_def fieldOccurrences_def)
qed

lemma fieldsLoop_Cons:
  "fieldsLoop S F P g ign skip (fld # flds) st =
     (if unsupported fld then
        (if ign then fieldsLoop S F P g ign skip flds st else Return (st, Some (rejection fld)))
      else if [] \<in> set (fieldNames fld) \<and> [] \<notin> skip then Panic ''index out of range''
      else fieldsLoop S F P g ign skip flds
             (addFuncs S F P (map (\<lambda>n. (fld, n))
                (filter (generate g skip) (fieldNames fld))) st))"
  by (cases st)
     (simp add: unsupported_def embedded_def rejection_def fieldContainsImport_iff
        namesLoop_eq addFuncs_def comp_def)

lemma fieldsLoop_eq:
  "fieldsLoop S F P g ign skip flds st =
     (case find (stops ign skip) flds of
        None \<Rightarrow> Return (addFuncs S F P (generatedFields g skip flds) st, None)
      | Some fld \<Rightarrow>
          if unsupported fld then
            Return (addFuncs S F P
                      (generatedFields g skip (takeWhile (\<lambda>f. \<not> stops ign skip f) flds)) st,
                    Some (rejection fld))
          else Panic ''index out of range'')"
proof (induction flds arbitrary: st)
  case Nil
  show ?case by (simp add: generatedFields_Nil addFuncs_Nil)
next
  case (Cons fld flds)
  let ?new = "map (\<lambda>n. (fld, n)) (filter (generate g skip) (fieldNames fld))"
  show ?case
  proof (cases "stops ign skip fld")
    case True
    show ?thesis
    proof (cases "unsupported fld")
      case u: True
      with True have "\<not> ign" by (simp add: stops_def)
      with u True show ?thesis
        by (simp add: fieldsLoop_Cons generatedFields_Nil addFuncs_Nil del: fieldsLoop.simps)
    next
      case u: False
      with True have "[] \<in> set (fieldNames fld) \<and> [] \<notin> skip" by (simp add: stops_def)
      with u True show ?thesis
        by (simp add: fieldsLoop_Cons del: fieldsLoop.simps)
    qed
  next
    case False
    show ?thesis
    proof (cases "unsupported fld")
      case u: True
      with False have "ign" by (simp add: stops_def)
      with u have "fieldsLoop S F P g ign skip (fld # flds) st =
          fieldsLoop S F P g ign skip flds st"
        by (simp add: fieldsLoop_Cons del: fieldsLoop.simps)
      moreover have "\<And>xs. generatedFields g skip (fld # xs) = generatedFields g skip xs"
        using u by (simp add: generatedFields_Cons)
      ultimately show ?thesis
        using False by (simp add: Cons.IH del: fieldsLoop.simps split: option.splits)
    next
      case u: False
      with False have np: "\<not> ([] \<in> set (fieldNames fld) \<and> [] \<notin> skip)"
        by (simp add: stops_def)
      from u np have "fieldsLoop S F P g ign skip (fld # flds) st =
          fieldsLoop S F P g ign skip flds (addFuncs S F P ?new st)"
        by (auto simp add: fieldsLoop_Cons simp del: fieldsLoop.simps)
      moreover have "\<And>xs. generatedFields g skip (fld # xs) = ?new @ generatedFields g skip xs"
        using u by (simp add: generatedFields_Cons)
      ultimately show ?thesis
        using False
        by (simp add: Cons.IH addFuncs_append del: fieldsLoop.simps split: option.splits)
    qed
  qed
qed

lemma withFuncs_eq:
  assumes "tsType st = StructType flds"
  shows "withFuncs astOut st F P g ign skip =
     (case find (stops ign skip) flds of
        Some fld \<Rightarrow>
          if unsupported fld then
            Return (fst (addFuncs (tsName st) F P
                      (generatedFields g skip (takeWhile (\<lambda>f. \<not> stops ign skip f) flds))
                      (astOut, 0)),
                    Some (rejection fld))
          else Panic ''index out of range''
      | None \<Rightarrow>
          Return (fst (addFuncs (tsName st) F P (generatedFields g skip flds) (astOut, 0)),
                  if generatedFields g skip flds = []
                  then Some (Errorf ''no fields in struct (aside from ignored errors)'')
                  else None))"
  using assms
  by (simp add: withFuncs_def fieldsLoop_eq addFuncs_def split: option.splits)

subsection \<open>The type locator\<close>

lemma find_append:
  "find P (xs @ ys) = (case find P xs of Some x \<Rightarrow> Some x | None \<Rightarrow> find P ys)"
  by (induction xs) auto

lemma findInSpecs_eq:
  "findInSpecs specs n =
     find (\<lambda>ts. isStructType (tsType ts) \<and> tsName ts = n)
       (concat (map (\<lambda>s. case s of TypeSpecS ts \<Rightarrow> [ts] | _ \<Rightarrow> []) specs))"
  by (induction specs n rule: findInSpecs.induct) auto

lemma findInDecls_eq:
  "findInDecls decls n =
     find (\<lambda>ts. isStructType (tsType ts) \<and> tsName ts = n) (concat (map typeSpecsOf decls))"
  by (induction decls n rule: findInDecls.induct)
     (auto simp: find_append findInSpecs_eq split: option.splits)

lemma findRequestedStructType_eq:
  "findRequestedStructType f n =
     find (\<lambda>ts. isStructType (tsType ts) \<and> tsName ts = n) (topLevelTypeDecls f)"
  by (simp add: findRequestedStructType_def findInDecls_eq topLevelTypeDecls_def)

lemma isStructType_iff: "isStructType e = (\<exists>flds. e = StructType flds)"
  by (cases e) auto

lemma found_struct:
  assumes "findRequestedStructType f n = Some st"
  shows "tsName st = n" and "\<exists>flds. tsType st = StructType flds"
  using assms by (auto simp: findRequestedStructType_eq find_Some_iff isStructType_iff)

subsection \<open>The run as a whole\<close>

lemma run_struct:
  assumes "parser_ParseFile (definitionFile opts) = Inr astF"
    and "findRequestedStructType astF (structTypeName opts) = Some st"
    and "tsType st = StructType flds"
  shows "run parser_ParseFile printer_Fprint opts =
     (case find (stops (ignoreUnsupported opts) (skipStructFields opts)) flds of
        Some fld \<Rightarrow>
          if unsupported fld then Return (Inl (rejection fld))
          else Panic ''index out of range''
      | None \<Rightarrow>
          if generatedFields (generateForUnexportedFields opts) (skipStructFields opts) flds = []
          then Return (Inl (Errorf ''no fields in struct (aside from ignored errors)''))
          else passOn (printer_Fprint
                 \<lparr>Name = Name astF,
                  Decls = typeDecl (tsName st) (exportFnType opts) #
                    map (setterDecl (tsName st) (exportFnType opts))
                      (generatedFields (generateForUnexportedFields opts)
                         (skipStructFields opts) flds)\<rparr>))"
  using assms
  by (simp add: run_def Let_def withFuncs_eq [OF assms(3)] withTypeDef_def addFuncs_def
        typeDecl_def setterDecl_def [abs_def] comp_def passOn_def split: option.splits)

subsection \<open>Successful runs\<close>

lemma run_success:
  assumes "run parser_ParseFile printer_Fprint opts = Return (Inr text)"
  shows "\<exists>astF st flds.
     parser_ParseFile (definitionFile opts) = Inr astF \<and>
     findRequestedStructType astF (structTypeName opts) = Some st \<and>
     tsType st = StructType flds \<and>
     find (stops (ignoreUnsupported opts) (skipStructFields opts)) flds = None \<and>
     generatedFields (generateForUnexportedFields opts) (skipStructFields opts) flds \<noteq> [] \<and>
     printer_Fprint
       \<lparr>Name = Name astF,
        Decls = typeDecl (structTypeName opts) (exportFnType opts) #
          map (setterDecl (structTypeName opts) (exportFnType opts))
            (generatedFields (generateForUnexportedFields opts)
               (skipStructFields opts) flds)\<rparr> = Inr text"
proof -
  obtain astF where p: "parser_ParseFile (definitionFile opts) = Inr astF"
    using assms by (cases "parser_ParseFile (definitionFile opts)") (auto simp: run_def)
  obtain st where f: "findRequestedStructType astF (structTypeName opts) = Some st"
    using assms p
    by (cases "findRequestedStructType astF (structTypeName opts)") (auto simp: run_def)
  from found_struct [OF f] obtain flds where
    t: "tsType st = StructType flds" and n: "tsName st = structTypeName opts"
    by blast
  from assms show ?thesis
    unfolding run_struct [where parser_ParseFile = parser_ParseFile and opts = opts, OF p f t]
    using p f t n by (auto simp: passOn_def split: option.splits if_splits sum.splits)
qed

lemma run_Inr:
  assumes "parser_ParseFile (definitionFile opts) = Inr astF"
    and "findRequestedStructType astF (structTypeName opts) = Some st"
    and "tsType st = StructType flds"
    and "find (stops (ignoreUnsupported opts) (skipStructFields opts)) flds = None"
    and "generatedFields (generateForUnexportedFields opts) (skipStructFields opts) flds \<noteq> []"
  shows "run parser_ParseFile printer_Fprint opts =
     passOn (printer_Fprint
       \<lparr>Name = Name astF,
        Decls = typeDecl (structTypeName opts) (exportFnType opts) #
          map (setterDecl (structTypeName opts) (exportFnType opts))
            (generatedFields (generateForUnexportedFields opts)
               (skipStructFields opts) flds)\<rparr>)"
  using assms(4,5) found_struct(1) [OF assms(2)]
  unfolding run_struct [where parser_ParseFile = parser_ParseFile and opts = opts, OF assms(1-3)]
  by simp

lemma run_output:
  assumes "run parser_ParseFile printer_Fprint opts = Return (Inr text)"
  obtains astF st flds astOut where
    "parser_ParseFile (definitionFile opts) = Inr astF"
    "findRequestedStructType astF (structTypeName opts) = Some st"
    "tsType st = StructType flds"
    "find (stops (ignoreUnsupported opts) (skipStructFields opts)) flds = None"
    "run parser_ParseFile Inr opts = Return (Inr astOut)"
    "printer_Fprint astOut = Inr text"
    "Name astOut = Name astF"
    "Decls astOut =
       typeDecl (structTypeName opts) (exportFnType opts) #
       map (setterDecl (structTypeName opts) (exportFnType opts))
         (generatedFields (generateForUnexportedFields opts) (skipStructFields opts) flds)"
proof -
  from run_success [OF assms] obtain astF st flds where
    p: "parser_ParseFile (definitionFile opts) = Inr astF" and
    f: "findRequestedStructType astF (structTypeName opts) = Some st" and
    t: "tsType st = StructType flds" and
    s: "find (stops (ignoreUnsupported opts) (skipStructFields opts)) flds = None" and
    g: "generatedFields (generateForUnexportedFields opts) (skipStructFields opts) flds \<noteq> []" and
    r: "printer_Fprint
       \<lparr>Name = Name astF,
        Decls = typeDecl (structTypeName opts) (exportFnType opts) #
          map (setterDecl (structTypeName opts) (exportFnType opts))
            (generatedFields (generateForUnexportedFields opts)
               (skipStructFields opts) flds)\<rparr> = Inr text"
    by blast
  let ?out = "\<lparr>Name = Name astF,
        Decls = typeDecl (structTypeName opts) (exportFnType opts) #
          map (setterDecl (structTypeName opts) (exportFnType opts))
            (generatedFields (generateForUnexportedFields opts)
               (skipStructFields opts) flds)\<rparr>"
  have "run parser_ParseFile Inr opts = Return (Inr ?out)"
    using run_Inr [where parser_ParseFile = parser_ParseFile and opts = opts
        and printer_Fprint = Inr, OF p f t s g]
    by (simp add: passOn_def)
  with p f t s r show ?thesis
    by (intro that [of astF st flds ?out]) simp_all
qed

subsection \<open>Observations on the synthesized declarations\<close>

lemma assignedField_setterDecl: "assignedField (setterDecl S e occ) = Some (snd occ)"
  by (simp add: setterDecl_def newFunc_def getInnerFn_def Let_def)

lemma assignedField_typeDecl: "assignedField (typeDecl S e) = None"
  by (simp add: typeDecl_def)

lemma count_setters:
  "length (filter (\<lambda>d. assignedField d = Some n) (map (setterDecl S e) occs)) =
   length (filter (\<lambda>occ. snd occ = n) occs)"
  by (induction occs) (simp_all add: assignedField_setterDecl)

subsection \<open>The example runs\<close>

lemma run_fileA: "run (parsesTo fileA) Inr optsA = Return (Inr fileA_out)"
  by code_simp

subsection \<open>Groups at which the loop stops\<close>

lemma stops_wf:
  assumes "[] \<notin> set (fieldNames fld) \<or> [] \<in> skip"
  shows "stops ign skip fld = (unsupported fld \<and> \<not> ign)"
  using assms by (auto simp: stops_def)

lemma find_None_iff2: "find P xs = None \<longleftrightarrow> (\<forall>x\<in>set xs. \<not> P x)"
  by (induction xs) auto

subsection \<open>Names that are not in the struct\<close>

lemma find_cong_set:
  assumes "\<And>x. x \<in> set xs \<Longrightarrow> P x = Q x"
  shows "find P xs = find Q xs"
  using assms by (induction xs) auto

lemma occurrence_names:
  "snd ` set (fieldOccurrences flds) = (\<Union>fld\<in>set flds. set (fieldNames fld))"
  by (auto simp: fieldOccurrences_def image_iff)

subsection \<open>Unsupported groups\<close>

lemma generatedFields_supported:
  "generatedFields g skip (filter (\<lambda>fld. \<not> unsupported fld) flds) = generatedFields g skip flds"
  by (induction flds) (simp_all add: generatedFields_Nil generatedFields_Cons)

lemma rejection_cases:
  "rejection fld = Errorf ''embedded fields disallowed'' \<or>
   rejection fld = Errorf ''cannot generate for fields whose type is imported''"
  by (simp add: rejection_def)

lemma passOn_not_Errorf: "passOn r \<noteq> Return (Inl (Errorf msg))"
  by (cases r) (simp_all add: passOn_def)

subsection \<open>The shape of a setter\<close>

lemma run_fileAA: "run (parsesTo fileAA) Inr optsA = Return (Inr fileAA_out)"
  by code_simp

lemma setterDecl_eq:
  "setterDecl S e (fld, X) =
     FuncDecl [] (''Set'' @ withFirstCharUppper X)
       (FuncType [Field [withFirstCharLower X @ ''Gen''] (fieldType fld) None]
          [Field [] (Ident (funcTypeIdent S e)) None])
       [ReturnStmt [FuncLit
          (FuncType [Field [withFirstCharLower S @ ''Gen''] (StarExpr (Ident S)) None] [])
          [AssignStmt [SelectorExpr (Ident (withFirstCharLower S @ ''Gen'')) X] token_ASSIGN
             [Ident (withFirstCharLower X @ ''Gen'')]]]]"
  by (simp add: setterDecl_def newFunc_def getInnerFn_def Let_def)

subsection \<open>Names of the declarations\<close>

lemma run_fileFoo: "run (parsesTo fileFoo) Inr optsFoo = Return (Inr fileFoo_out)"
  by code_simp

lemma withFirstCharUppper_ascii: "asciiFirst s \<Longrightarrow> withFirstCharUppper s = upperFirst s"
  by (cases s) (auto simp: asciiFirst_def upperFirst_def strings_ToUpper_def Let_def)

lemma withFirstCharLower_ascii: "asciiFirst s \<Longrightarrow> withFirstCharLower s = lowerFirst s"
  by (cases s) (auto simp: asciiFirst_def lowerFirst_def strings_ToLower_def Let_def)

lemma declName_setterDecl: "declName (setterDecl S e (fld, X)) = ''Set'' @ withFirstCharUppper X"
  by (simp add: setterDecl_eq)

lemma declName_typeDecl: "declName (typeDecl S e) = funcTypeIdent S e"
  by (simp add: typeDecl_def)

subsection \<open>Which names have a setter\<close>

lemma run_fileU: "run (parsesTo fileU) Inr optsA = Return (Inr fileU_out)"
  by code_simp

lemma setter_exists_iff:
  "(\<exists>d\<in>set (typeDecl S e # map (setterDecl S e) occs). assignedField d = Some n) \<longleftrightarrow>
   n \<in> snd ` set occs"
  by (auto simp: assignedField_typeDecl assignedField_setterDecl image_iff)

subsection \<open>The exclusion rules on bytes\<close>




lemma rejection_not_found:
  "rejection fld \<noteq> Errorf ''could not find struct type in definition file''"
  by (simp add: rejection_def)

lemma run_fileFooS: "run (parsesTo fileFooS) Inr optsFooS = Return (Inr fileFooS_out)"
  by code_simp

section \<open>The claims\<close>




text \<open>
  C2. When the struct is found and every field is filtered out (it is in the skip set,
  or unexported while \<^verbatim>\<open>generateForUnexportedFields\<close> is false, or in an unsupported
  group that is skipped), so that no group is rejected and no setter is generated, the
  run fails with \<^verbatim>\<open>no fields in struct (aside from ignored errors)\<close>. The result
  carries no output: the file that then holds the function-type declaration alone is
  the state that \<^verbatim>\<open>withFuncs\<close> leaves behind, and \<^verbatim>\<open>run\<close> drops it.
\<close>

theorem run_no_fields:
  assumes p: "parser_ParseFile (definitionFile opts) = Inr astF"
    and f: "findRequestedStructType astF (structTypeName opts) = Some st"
    and t: "tsType st = StructType flds"
    and u: "ignoreUnsupported opts \<or> (\<forall>fld\<in>set flds. \<not> unsupported fld)"
    and x: "\<forall>(fld, n)\<in>set (fieldOccurrences flds).
              excluded (generateForUnexportedFields opts) (skipStructFields opts) fld n"
  shows "run parser_ParseFile printer_Fprint opts =
           Return (Inl (Errorf ''no fields in struct (aside from ignored errors)'')) \<and>
         withFuncs
           (withTypeDef \<lparr>Name = Name astF, Decls = []\<rparr>
              (funcTypeIdent (tsName st) (exportFnType opts)) (StarExpr (Ident (tsName st))))
           st (funcTypeIdent (tsName st) (exportFnType opts)) (StarExpr (Ident (tsName st)))
           (generateForUnexportedFields opts) (ignoreUnsupported opts) (skipStructFields opts) =
           Return (\<lparr>Name = Name astF, Decls = [typeDecl (tsName st) (exportFnType opts)]\<rparr>,
                   Some (Errorf ''no fields in struct (aside from ignored errors)''))"
proof -
  let ?g = "generateForUnexportedFields opts" and ?skip = "skipStructFields opts"
  have g: "generatedFields ?g ?skip flds = []"
    using x by (auto simp: generatedFields_def filter_empty_conv)
  have "\<not> stops (ignoreUnsupported opts) ?skip fld" if m: "fld \<in> set flds" for fld
  proof (cases "unsupported fld")
    case True
    with u m show ?thesis by (auto simp: stops_def)
  next
    case False
    have "[] \<in> ?skip" if e: "[] \<in> set (fieldNames fld)"
    proof -
      from m e have "(fld, []) \<in> set (fieldOccurrences flds)"
        by (auto simp: fieldOccurrences_def)
      with x have "excluded ?g ?skip fld []" by blast
      with False show ?thesis
        by (simp add: excluded_def unsupported_def unexported_def)
    qed
    with False show ?thesis by (auto simp: stops_def)
  qed
  then have s: "find (stops (ignoreUnsupported opts) ?skip) flds = None"
    by (simp add: find_None_iff2)
  have "run parser_ParseFile printer_Fprint opts =
      Return (Inl (Errorf ''no fields in struct (aside from ignored errors)''))"
    unfolding run_struct [where parser_ParseFile = parser_ParseFile and opts = opts, OF p f t]
    by (simp add: s g)
  moreover have "withFuncs
           (withTypeDef \<lparr>Name = Name astF, Decls = []\<rparr>
              (funcTypeIdent (tsName st) (exportFnType opts)) (StarExpr (Ident (tsName st))))
           st (funcTypeIdent (tsName st) (exportFnType opts)) (StarExpr (Ident (tsName st)))
           (generateForUnexportedFields opts) (ignoreUnsupported opts) (skipStructFields opts) =
           Return (\<lparr>Name = Name astF, Decls = [typeDecl (tsName st) (exportFnType opts)]\<rparr>,
                   Some (Errorf ''no fields in struct (aside from ignored errors)''))"
    unfolding withFuncs_eq [OF t]
    by (simp add: s g addFuncs_def withTypeDef_def typeDecl_def)
  ultimately show ?thesis by (rule conjI)
qed

theorem run_no_fields_witness:
  "run (parsesTo fileCD) (Inr :: astFile \<Rightarrow> string + astFile) optsSkipCD =
     Return (Inl (Errorf ''no fields in struct (aside from ignored errors)'')) \<and>
   withFuncs
     (withTypeDef \<lparr>Name = Name fileCD, Decls = []\<rparr>
        (funcTypeIdent (tsName (TypeSpec ''A'' (StructType fieldsCD))) (exportFnType optsSkipCD))
        (StarExpr (Ident (tsName (TypeSpec ''A'' (StructType fieldsCD))))))
     (TypeSpec ''A'' (StructType fieldsCD))
     (funcTypeIdent (tsName (TypeSpec ''A'' (StructType fieldsCD))) (exportFnType optsSkipCD))
     (StarExpr (Ident (tsName (TypeSpec ''A'' (StructType fieldsCD)))))
     (generateForUnexportedFields optsSkipCD) (ignoreUnsupported optsSkipCD)
     (skipStructFields optsSkipCD) =
     Return (\<lparr>Name = Name fileCD,
              Decls = [typeDecl (tsName (TypeSpec ''A'' (StructType fieldsCD)))
                         (exportFnType optsSkipCD)]\<rparr>,
             Some (Errorf ''no fields in struct (aside from ignored errors)''))"
proof -
  have p: "parsesTo fileCD (definitionFile optsSkipCD) = Inr fileCD"
    by (simp add: parsesTo_def)
  have f: "findRequestedStructType fileCD (structTypeName optsSkipCD) =
      Some (TypeSpec ''A'' (StructType fieldsCD))"
    by (simp add: findRequestedStructType_def fileCD_def optsSkipCD_def)
  have t: "tsType (TypeSpec ''A'' (StructType fieldsCD)) = StructType fieldsCD"
    by simp
  have u: "ignoreUnsupported optsSkipCD \<or> (\<forall>fld\<in>set fieldsCD. \<not> unsupported fld)"
    by (simp add: fieldsCD_def unsupported_def embedded_def referencesImportedPackage_def)
  have x: "\<forall>(fld, n)\<in>set (fieldOccurrences fieldsCD).
      excluded (generateForUnexportedFields optsSkipCD) (skipStructFields optsSkipCD) fld n"
    by (simp add: fieldsCD_def fieldOccurrences_def excluded_def optsSkipCD_def)
  show ?thesis
    by (rule run_no_fields [where parser_ParseFile = "parsesTo fileCD" and opts = optsSkipCD,
          OF p f t u x])
qed

text \<open>
  C3. With the struct found and every field name non-empty (as the parser yields them):
  the run fails with one of the two unsupported-field errors exactly when
  \<^verbatim>\<open>ignoreUnsupported\<close> is false and some group is embedded or has a type with a
  selector expression at any node; the first such group decides the error, the embedded
  check before the import check, whatever the skip set holds; and when
  \<^verbatim>\<open>ignoreUnsupported\<close> is true the result is the one of the struct without these
  groups.
\<close>

theorem unsupported_groups:
  assumes p: "parser_ParseFile (definitionFile opts) = Inr astF"
    and f: "findRequestedStructType astF (structTypeName opts) = Some st"
    and t: "tsType st = StructType flds"
    and wf: "\<forall>fld\<in>set flds. [] \<notin> set (fieldNames fld)"
  shows
    "((run parser_ParseFile printer_Fprint opts =
         Return (Inl (Errorf ''embedded fields disallowed'')) \<or>
       run parser_ParseFile printer_Fprint opts =
         Return (Inl (Errorf ''cannot generate for fields whose type is imported''))) \<longleftrightarrow>
      (\<not> ignoreUnsupported opts \<and>
       (\<exists>fld\<in>set flds. embedded fld \<or> referencesImportedPackage (fieldType fld)))) \<and>
     (\<forall>fld. \<not> ignoreUnsupported opts \<and>
        find (\<lambda>fld. embedded fld \<or> referencesImportedPackage (fieldType fld)) flds = Some fld
        \<longrightarrow>
        run parser_ParseFile printer_Fprint opts =
          Return (Inl (if embedded fld then Errorf ''embedded fields disallowed''
                       else Errorf ''cannot generate for fields whose type is imported''))) \<and>
     (ignoreUnsupported opts \<longrightarrow>
        run parser_ParseFile printer_Fprint opts =
          (let gs = generatedFields (generateForUnexportedFields opts) (skipStructFields opts)
                      (filter (\<lambda>fld. \<not> (embedded fld \<or>
                          referencesImportedPackage (fieldType fld))) flds)
           in if gs = []
              then Return (Inl (Errorf ''no fields in struct (aside from ignored errors)''))
              else passOn (printer_Fprint
                     \<lparr>Name = Name astF,
                      Decls = typeDecl (structTypeName opts) (exportFnType opts) #
                        map (setterDecl (structTypeName opts) (exportFnType opts)) gs\<rparr>)))"
proof -
  let ?ign = "ignoreUnsupported opts" and ?skip = "skipStructFields opts"
  let ?g = "generateForUnexportedFields opts"
  note r = run_struct [where parser_ParseFile = parser_ParseFile and opts = opts
      and printer_Fprint = printer_Fprint, OF p f t]
  have n: "tsName st = structTypeName opts"
    by (rule found_struct(1) [OF f])
  have u: "(\<lambda>fld. embedded fld \<or> referencesImportedPackage (fieldType fld)) = unsupported"
    by (simp add: unsupported_def [abs_def])
  have s: "find (stops ?ign ?skip) flds = (if ?ign then None else find unsupported flds)"
  proof -
    have "find (stops ?ign ?skip) flds = find (\<lambda>fld. unsupported fld \<and> \<not> ?ign) flds"
      using wf by (intro find_cong_set) (simp add: stops_wf)
    also have "\<dots> = (if ?ign then None else find unsupported flds)"
      by (simp add: find_None_iff2)
    finally show ?thesis .
  qed
  have gs: "generatedFields ?g ?skip
      (filter (\<lambda>fld. \<not> embedded fld \<and> \<not> referencesImportedPackage (fieldType fld)) flds) =
      generatedFields ?g ?skip flds"
    using generatedFields_supported [of ?g ?skip flds] by (simp add: unsupported_def)
  show ?thesis
  proof (cases ?ign)
    case True
    then show ?thesis
      unfolding u r s
      by (simp add: gs n passOn_not_Errorf Let_def)
  next
    case False
    show ?thesis
    proof (cases "find unsupported flds")
      case None
      then have "\<forall>fld\<in>set flds. \<not> unsupported fld"
        by (simp add: find_None_iff2)
      with False None show ?thesis
        unfolding u r s
        by (auto simp: passOn_not_Errorf unsupported_def)
    next
      case (Some fld)
      then have "unsupported fld" "fld \<in> set flds"
        by (auto simp: find_Some_iff)
      with False Some show ?thesis
        unfolding u r s
        using rejection_cases [of fld]
        by (auto simp: rejection_def unsupported_def)
    qed
  qed
qed

theorem unsupported_groups_witness:
  "find (\<lambda>fld. embedded fld \<or> referencesImportedPackage (fieldType fld)) fieldsImp =
     Some (Field [''X''] (StarExpr (SelectorExpr (Ident ''otherpkg'') ''Thing'')) None) \<and>
   ''X'' \<in> skipStructFields optsStrictSkipX \<and>
   run (parsesTo fileImp) (Inr :: astFile \<Rightarrow> string + astFile) optsStrictSkipX =
     Return (Inl (Errorf ''cannot generate for fields whose type is imported''))"
proof -
  have p: "parsesTo fileImp (definitionFile optsStrictSkipX) = Inr fileImp"
    by (simp add: parsesTo_def)
  have f: "findRequestedStructType fileImp (structTypeName optsStrictSkipX) =
      Some (TypeSpec ''A'' (StructType fieldsImp))"
    by (simp add: findRequestedStructType_def fileImp_def optsStrictSkipX_def)
  have t: "tsType (TypeSpec ''A'' (StructType fieldsImp)) = StructType fieldsImp"
    by simp
  have wf: "\<forall>fld\<in>set fieldsImp. [] \<notin> set (fieldNames fld)"
    by (simp add: fieldsImp_def)
  have u: "find (\<lambda>fld. embedded fld \<or> referencesImportedPackage (fieldType fld)) fieldsImp =
      Some (Field [''X''] (StarExpr (SelectorExpr (Ident ''otherpkg'') ''Thing'')) None)"
    by (simp add: fieldsImp_def embedded_def referencesImportedPackage_def)
  have i: "\<not> ignoreUnsupported optsStrictSkipX"
    by (simp add: optsStrictSkipX_def)
  have k: "''X'' \<in> skipStructFields optsStrictSkipX"
    by (simp add: optsStrictSkipX_def)
  have e: "\<not> embedded (Field [''X''] (StarExpr (SelectorExpr (Ident ''otherpkg'') ''Thing'')) None)"
    by (simp add: embedded_def)
  from unsupported_groups [where parser_ParseFile = "parsesTo fileImp"
      and opts = optsStrictSkipX
      and printer_Fprint = "Inr :: astFile \<Rightarrow> string + astFile", OF p f t wf] i u e
  have "run (parsesTo fileImp) (Inr :: astFile \<Rightarrow> string + astFile) optsStrictSkipX =
      Return (Inl (Errorf ''cannot generate for fields whose type is imported''))"
    by simp
  with u k show ?thesis by (intro conjI)
qed

text \<open>
  C4. The type locator returns the first type declaration at the top level of the file, in
  file order, that is a struct and has the requested name. With the file parsed, the run
  fails with \<^verbatim>\<open>could not find struct type in definition file\<close> exactly when there
  is no such declaration, also when a declaration of that name exists and is not a
  struct.
\<close>

theorem findRequestedStructType_first_struct:
  "findRequestedStructType f n =
     find (\<lambda>ts. (\<exists>flds. tsType ts = StructType flds) \<and> tsName ts = n)
       (topLevelTypeDecls f) \<and>
   (parser_ParseFile (definitionFile opts) = Inr f \<longrightarrow>
    (run parser_ParseFile printer_Fprint opts =
       Return (Inl (Errorf ''could not find struct type in definition file'')) \<longleftrightarrow>
     find (\<lambda>ts. (\<exists>flds. tsType ts = StructType flds) \<and> tsName ts = structTypeName opts)
       (topLevelTypeDecls f) = None))"
proof -
  have e: "findRequestedStructType f n =
      find (\<lambda>ts. (\<exists>flds. tsType ts = StructType flds) \<and> tsName ts = n)
        (topLevelTypeDecls f)" for n
    by (simp add: findRequestedStructType_eq isStructType_iff)
  have "run parser_ParseFile printer_Fprint opts =
       Return (Inl (Errorf ''could not find struct type in definition file'')) \<longleftrightarrow>
     findRequestedStructType f (structTypeName opts) = None"
    if p: "parser_ParseFile (definitionFile opts) = Inr f"
  proof (cases "findRequestedStructType f (structTypeName opts)")
    case None
    with p show ?thesis by (simp add: run_def)
  next
    case (Some st)
    from found_struct(2) [OF Some] obtain flds where t: "tsType st = StructType flds"
      by blast
    show ?thesis
      unfolding run_struct [where parser_ParseFile = parser_ParseFile and opts = opts, OF p Some t]
      using Some
      by (simp add: rejection_not_found passOn_not_Errorf split: option.splits)
  qed
  with e show ?thesis by simp
qed

theorem findRequestedStructType_first_struct_witness:
  "topLevelTypeDecls fileMulti =
     [TypeSpec ''B'' (StructType fieldsCD), TypeSpec ''A'' (Ident ''string''),
      TypeSpec ''A'' (StructType fieldsA), TypeSpec ''A'' (StructType fieldsCD)] \<and>
   findRequestedStructType fileMulti ''A'' = Some (TypeSpec ''A'' (StructType fieldsA)) \<and>
   topLevelTypeDecls fileStringA = [TypeSpec ''A'' (Ident ''string'')] \<and>
   findRequestedStructType fileStringA ''A'' = None \<and>
   run (parsesTo fileStringA) (Inr :: astFile \<Rightarrow> string + astFile) optsA =
     Return (Inl (Errorf ''could not find struct type in definition file''))"
proof -
  have m: "topLevelTypeDecls fileMulti =
     [TypeSpec ''B'' (StructType fieldsCD), TypeSpec ''A'' (Ident ''string''),
      TypeSpec ''A'' (StructType fieldsA), TypeSpec ''A'' (StructType fieldsCD)]"
    by (simp add: topLevelTypeDecls_def fileMulti_def)
  have d: "topLevelTypeDecls fileStringA = [TypeSpec ''A'' (Ident ''string'')]"
    by (simp add: topLevelTypeDecls_def fileStringA_def)
  have p: "parsesTo fileStringA (definitionFile optsA) = Inr fileStringA"
    by (simp add: parsesTo_def)
  have s: "structTypeName optsA = ''A''"
    by (simp add: optsA_def)
  note multi = findRequestedStructType_first_struct
    [of fileMulti "''A''" "parsesTo fileMulti" optsA "Inr :: astFile \<Rightarrow> string + astFile"]
  note inst = findRequestedStructType_first_struct
    [of fileStringA "''A''" "parsesTo fileStringA" optsA "Inr :: astFile \<Rightarrow> string + astFile"]
  from multi have "findRequestedStructType fileMulti ''A'' = Some (TypeSpec ''A'' (StructType fieldsA))"
    by (simp add: m)
  moreover from inst have "findRequestedStructType fileStringA ''A'' = None"
    by (simp add: d)
  moreover from inst p
  have "run (parsesTo fileStringA) (Inr :: astFile \<Rightarrow> string + astFile) optsA =
      Return (Inl (Errorf ''could not find struct type in definition file''))"
    by (simp add: d s)
  ultimately show ?thesis using m d by (intro conjI)
qed

text \<open>
  C5, amended. In a successful run, the setter of a generated field whose name starts with
  an ASCII byte is named \<^verbatim>\<open>Set\<close> followed by the name with that byte upper-cased,
  whether the field is exported or not; and when the struct's name starts with an ASCII
  byte, the function type is named after it, first byte upper-cased when
  \<^verbatim>\<open>exportFnType\<close> is true and lower-cased otherwise, followed by
  \<^verbatim>\<open>FieldSetter\<close>, whatever the fields are.
\<close>

theorem names_ascii:
  assumes "run parser_ParseFile printer_Fprint opts = Return (Inr text)"
  shows "\<exists>astF st flds astOut.
     parser_ParseFile (definitionFile opts) = Inr astF \<and>
     findRequestedStructType astF (structTypeName opts) = Some st \<and>
     tsType st = StructType flds \<and>
     run parser_ParseFile Inr opts = Return (Inr astOut) \<and>
     printer_Fprint astOut = Inr text \<and>
     Decls astOut =
       typeDecl (structTypeName opts) (exportFnType opts) #
       map (setterDecl (structTypeName opts) (exportFnType opts))
         (generatedFields (generateForUnexportedFields opts) (skipStructFields opts) flds) \<and>
     (asciiFirst (structTypeName opts) \<longrightarrow>
        declName (typeDecl (structTypeName opts) (exportFnType opts)) =
          (if exportFnType opts then upperFirst (structTypeName opts)
           else lowerFirst (structTypeName opts)) @ ''FieldSetter'') \<and>
     (\<forall>(fld, X)\<in>set (generatedFields (generateForUnexportedFields opts)
                        (skipStructFields opts) flds).
        asciiFirst X \<longrightarrow>
        declName (setterDecl (structTypeName opts) (exportFnType opts) (fld, X)) =
          ''Set'' @ upperFirst X)"
proof -
  from assms obtain astF st flds astOut where
    "parser_ParseFile (definitionFile opts) = Inr astF"
    "findRequestedStructType astF (structTypeName opts) = Some st"
    "tsType st = StructType flds"
    "run parser_ParseFile Inr opts = Return (Inr astOut)"
    "printer_Fprint astOut = Inr text"
    "Decls astOut =
       typeDecl (structTypeName opts) (exportFnType opts) #
       map (setterDecl (structTypeName opts) (exportFnType opts))
         (generatedFields (generateForUnexportedFields opts) (skipStructFields opts) flds)"
    by (rule run_output)
  then show ?thesis
    by (rule_tac x = astF in exI, rule_tac x = st in exI, rule_tac x = flds in exI,
        rule_tac x = astOut in exI)
       (auto simp: declName_setterDecl declName_typeDecl funcTypeIdent_def
          withFirstCharUppper_ascii withFirstCharLower_ascii)
qed

theorem names_ascii_witness:
  "run (parsesTo fileFoo) Inr optsFoo = Return (Inr fileFoo_out) \<and>
   map declName (Decls fileFoo_out) = [''SFieldSetter'', ''SetFoo'', ''SetFoo''] \<and>
   upperFirst ''foo'' = ''Foo'' \<and> upperFirst ''Foo'' = ''Foo'' \<and>
   (\<exists>astF st flds astOut.
     parsesTo fileFoo (definitionFile optsFoo) = Inr astF \<and>
     findRequestedStructType astF (structTypeName optsFoo) = Some st \<and>
     tsType st = StructType flds \<and>
     run (parsesTo fileFoo) Inr optsFoo = Return (Inr astOut) \<and>
     Inr astOut = (Inr fileFoo_out :: string + astFile) \<and>
     Decls astOut =
       typeDecl (structTypeName optsFoo) (exportFnType optsFoo) #
       map (setterDecl (structTypeName optsFoo) (exportFnType optsFoo))
         (generatedFields (generateForUnexportedFields optsFoo) (skipStructFields optsFoo) flds) \<and>
     (asciiFirst (structTypeName optsFoo) \<longrightarrow>
        declName (typeDecl (structTypeName optsFoo) (exportFnType optsFoo)) =
          (if exportFnType optsFoo then upperFirst (structTypeName optsFoo)
           else lowerFirst (structTypeName optsFoo)) @ ''FieldSetter'') \<and>
     (\<forall>(fld, X)\<in>set (generatedFields (generateForUnexportedFields optsFoo)
                        (skipStructFields optsFoo) flds).
        asciiFirst X \<longrightarrow>
        declName (setterDecl (structTypeName optsFoo) (exportFnType optsFoo) (fld, X)) =
          ''Set'' @ upperFirst X))"
proof -
  have "map declName (Decls fileFoo_out) = [''SFieldSetter'', ''SetFoo'', ''SetFoo'']"
    by (simp add: fileFoo_out_def)
  moreover have "upperFirst ''foo'' = ''Foo''" "upperFirst ''Foo'' = ''Foo''"
    by code_simp+
  ultimately show ?thesis
    using run_fileFoo names_ascii [OF run_fileFoo] by (intro conjI)
qed

text \<open>
  C5, counterexample. The claim as stated fails for a name that starts with a character
  of several bytes: for the field named e with acute accent the setter is not named
  \<^verbatim>\<open>Set\<close> followed by the capital letter, but \<^verbatim>\<open>Set\<close> followed by the
  bytes of \<^verbatim>\<open>U+FFFD\<close> and the second byte of the letter.
\<close>

theorem names_non_ascii_counterexample:
  "declNames (run (parsesTo fileEacute) Inr optsA) =
     [''AFieldSetter'',
      [CHR ''S'', CHR ''e'', CHR ''t'', CHR 0xEF, CHR 0xBF, CHR 0xBD, CHR 0xA9]] \<and>
   [CHR ''S'', CHR ''e'', CHR ''t'', CHR 0xEF, CHR 0xBF, CHR 0xBD, CHR 0xA9] \<noteq>
     ''Set'' @ [CHR 0xC3, CHR 0x89]"
  by code_simp

text \<open>
  C6. The output of a successful run is the function-type declaration followed by the
  setters of the fields that no rule excludes, in the order of the struct: the field
  groups in declaration order, the names of a group in their order. The tree handed to
  the printer is the result of the run with the printer that returns its argument.
\<close>

theorem run_output_order:
  assumes "run parser_ParseFile printer_Fprint opts = Return (Inr text)"
  shows "\<exists>astF st flds astOut.
     parser_ParseFile (definitionFile opts) = Inr astF \<and>
     findRequestedStructType astF (structTypeName opts) = Some st \<and>
     tsType st = StructType flds \<and>
     run parser_ParseFile Inr opts = Return (Inr astOut) \<and>
     printer_Fprint astOut = Inr text \<and>
     Name astOut = Name astF \<and>
     Decls astOut =
       typeDecl (structTypeName opts) (exportFnType opts) #
       map (setterDecl (structTypeName opts) (exportFnType opts))
         (filter (\<lambda>(fld, n). \<not> excluded (generateForUnexportedFields opts)
                                (skipStructFields opts) fld n)
            (fieldOccurrences flds))"
proof -
  from assms obtain astF st flds astOut where
    "parser_ParseFile (definitionFile opts) = Inr astF"
    "findRequestedStructType astF (structTypeName opts) = Some st"
    "tsType st = StructType flds"
    "run parser_ParseFile Inr opts = Return (Inr astOut)"
    "printer_Fprint astOut = Inr text"
    "Name astOut = Name astF"
    "Decls astOut =
       typeDecl (structTypeName opts) (exportFnType opts) #
       map (setterDecl (structTypeName opts) (exportFnType opts))
         (generatedFields (generateForUnexportedFields opts) (skipStructFields opts) flds)"
    by (rule run_output)
  then show ?thesis
    unfolding generatedFields_def by blast
qed

theorem run_output_order_witness:
  "run (parsesTo fileA) Inr optsA = Return (Inr fileA_out) \<and>
   (\<exists>astF st flds astOut.
     parsesTo fileA (definitionFile optsA) = Inr astF \<and>
     findRequestedStructType astF (structTypeName optsA) = Some st \<and>
     tsType st = StructType flds \<and>
     run (parsesTo fileA) Inr optsA = Return (Inr astOut) \<and>
     Inr astOut = (Inr fileA_out :: string + astFile) \<and>
     Name astOut = Name astF \<and>
     Decls astOut =
       typeDecl (structTypeName optsA) (exportFnType optsA) #
       map (setterDecl (structTypeName optsA) (exportFnType optsA))
         (filter (\<lambda>(fld, n). \<not> excluded (generateForUnexportedFields optsA)
                                (skipStructFields optsA) fld n)
            (fieldOccurrences flds)))"
  by (rule conjI [OF run_fileA run_output_order [OF run_fileA]])

text \<open>
  C7. Adding to the skip set a name that is not among the field names of the target
  struct changes nothing: the run returns the same output, the same error or the same
  panic. When the file does not parse or the struct is not found there is no such
  struct and the two runs agree as well.
\<close>

theorem skip_absent_name:
  assumes "\<forall>astF st flds.
      parser_ParseFile (definitionFile opts) = Inr astF \<and>
      findRequestedStructType astF (structTypeName opts) = Some st \<and>
      tsType st = StructType flds \<longrightarrow>
      N \<notin> snd ` set (fieldOccurrences flds)"
  shows "run parser_ParseFile printer_Fprint
           (opts\<lparr>skipStructFields := insert N (skipStructFields opts)\<rparr>) =
         run parser_ParseFile printer_Fprint opts"
proof (cases "parser_ParseFile (definitionFile opts)")
  case (Inl msg)
  then show ?thesis by (simp add: run_def)
next
  case (Inr astF)
  show ?thesis
  proof (cases "findRequestedStructType astF (structTypeName opts)")
    case None
    with Inr show ?thesis by (simp add: run_def)
  next
    case (Some st)
    from found_struct(2) [OF Some] obtain flds where t: "tsType st = StructType flds"
      by blast
    let ?opts' = "opts\<lparr>skipStructFields := insert N (skipStructFields opts)\<rparr>"
    let ?skip = "skipStructFields opts"
    from assms Inr Some t have n: "N \<notin> snd ` set (fieldOccurrences flds)"
      by blast
    have p': "parser_ParseFile (definitionFile ?opts') = Inr astF"
      using Inr by simp
    have f': "findRequestedStructType astF (structTypeName ?opts') = Some st"
      using Some by simp
    have s: "stops ign (insert N ?skip) fld = stops ign ?skip fld"
      if "fld \<in> set flds" for fld ign
      using that n by (auto simp: stops_def occurrence_names)
    have fs: "find (stops ign (insert N ?skip)) flds = find (stops ign ?skip) flds" for ign
      by (rule find_cong_set) (rule s)
    have g: "generatedFields gu (insert N ?skip) flds = generatedFields gu ?skip flds" for gu
      using n by (auto simp: generatedFields_def excluded_def image_iff intro!: filter_cong)
    show ?thesis
      unfolding run_struct [where parser_ParseFile = parser_ParseFile and opts = ?opts',
          OF p' f' t]
        run_struct [where parser_ParseFile = parser_ParseFile and opts = opts, OF Inr Some t]
      by (simp add: fs g cong: option.case_cong)
  qed
qed

theorem skip_absent_name_witness:
  "''Z'' \<notin> snd ` set (fieldOccurrences fieldsA) \<and>
   run (parsesTo fileA) (Inr :: astFile \<Rightarrow> string + astFile)
     (optsA\<lparr>skipStructFields := insert ''Z'' (skipStructFields optsA)\<rparr>) =
   run (parsesTo fileA) Inr optsA \<and>
   run (parsesTo fileA) Inr optsA = Return (Inr fileA_out)"
proof -
  have n: "''Z'' \<notin> snd ` set (fieldOccurrences fieldsA)"
    by (simp add: fieldOccurrences_def fieldsA_def)
  have h: "\<forall>astF st flds.
      parsesTo fileA (definitionFile optsA) = Inr astF \<and>
      findRequestedStructType astF (structTypeName optsA) = Some st \<and>
      tsType st = StructType flds \<longrightarrow>
      ''Z'' \<notin> snd ` set (fieldOccurrences flds)"
    using n by (auto simp: parsesTo_def findRequestedStructType_def fileA_def optsA_def)
  from n skip_absent_name [where parser_ParseFile = "parsesTo fileA" and opts = optsA
      and N = "''Z''" and printer_Fprint = "Inr :: astFile \<Rightarrow> string + astFile", OF h]
    run_fileA
  show ?thesis by (intro conjI)
qed

text \<open>
  C8, amended. In a successful run, take a generated field such that its name and the
  name of the struct both start with an ASCII byte and are equal once that byte is
  lower-cased. Its setter has one and the same name for its own parameter and for the
  parameter of the function literal it returns; the right-hand side of the assignment
  is that name, so it refers to the parameter of the function literal. When the two
  lower-cased names differ it refers to the setter's parameter.
\<close>

theorem shadowed_parameter:
  assumes "run parser_ParseFile printer_Fprint opts = Return (Inr text)"
  shows "\<exists>astF st flds astOut.
     parser_ParseFile (definitionFile opts) = Inr astF \<and>
     findRequestedStructType astF (structTypeName opts) = Some st \<and>
     tsType st = StructType flds \<and>
     run parser_ParseFile Inr opts = Return (Inr astOut) \<and>
     printer_Fprint astOut = Inr text \<and>
     Decls astOut =
       typeDecl (structTypeName opts) (exportFnType opts) #
       map (setterDecl (structTypeName opts) (exportFnType opts))
         (generatedFields (generateForUnexportedFields opts) (skipStructFields opts) flds) \<and>
     (\<forall>(fld, X)\<in>set (generatedFields (generateForUnexportedFields opts)
                        (skipStructFields opts) flds).
        asciiFirst X \<and> asciiFirst (structTypeName opts) \<and>
        lowerFirst X = lowerFirst (structTypeName opts) \<longrightarrow>
        setterDecl (structTypeName opts) (exportFnType opts) (fld, X) =
          FuncDecl [] (''Set'' @ upperFirst X)
            (FuncType [Field [lowerFirst X @ ''Gen''] (fieldType fld) None]
               [Field [] (Ident ((if exportFnType opts then upperFirst (structTypeName opts)
                                  else lowerFirst (structTypeName opts)) @ ''FieldSetter''))
                  None])
            [ReturnStmt [FuncLit
               (FuncType [Field [lowerFirst X @ ''Gen'']
                  (StarExpr (Ident (structTypeName opts))) None] [])
               [AssignStmt [SelectorExpr (Ident (lowerFirst X @ ''Gen'')) X]
                  token_ASSIGN [Ident (lowerFirst X @ ''Gen'')]]]] \<and>
        rhsBinding (setterDecl (structTypeName opts) (exportFnType opts) (fld, X)) =
          Some ClosureParam) \<and>
     (\<forall>(fld, X)\<in>set (generatedFields (generateForUnexportedFields opts)
                        (skipStructFields opts) flds).
        asciiFirst X \<and> asciiFirst (structTypeName opts) \<and>
        lowerFirst X \<noteq> lowerFirst (structTypeName opts) \<longrightarrow>
        rhsBinding (setterDecl (structTypeName opts) (exportFnType opts) (fld, X)) =
          Some SetterParam)"
proof -
  from assms obtain astF st flds astOut where
    "parser_ParseFile (definitionFile opts) = Inr astF"
    "findRequestedStructType astF (structTypeName opts) = Some st"
    "tsType st = StructType flds"
    "run parser_ParseFile Inr opts = Return (Inr astOut)"
    "printer_Fprint astOut = Inr text"
    "Decls astOut =
       typeDecl (structTypeName opts) (exportFnType opts) #
       map (setterDecl (structTypeName opts) (exportFnType opts))
         (generatedFields (generateForUnexportedFields opts) (skipStructFields opts) flds)"
    by (rule run_output)
  then show ?thesis
    by (rule_tac x = astF in exI, rule_tac x = st in exI, rule_tac x = flds in exI,
        rule_tac x = astOut in exI)
       (auto simp: setterDecl_eq funcTypeIdent_def withFirstCharUppper_ascii
          withFirstCharLower_ascii)
qed

theorem shadowed_parameter_witness:
  "run (parsesTo fileFooS) Inr optsFooS = Return (Inr fileFooS_out) \<and>
   map rhsBinding (Decls fileFooS_out) = [None, Some ClosureParam, Some SetterParam] \<and>
   lowerFirst ''foo'' = lowerFirst ''Foo'' \<and>
   run (parsesTo fileAA) Inr optsA = Return (Inr fileAA_out) \<and>
   map rhsBinding (Decls fileAA_out) = [None, Some ClosureParam, Some SetterParam] \<and>
   (\<exists>astF st flds astOut.
     parsesTo fileFooS (definitionFile optsFooS) = Inr astF \<and>
     findRequestedStructType astF (structTypeName optsFooS) = Some st \<and>
     tsType st = StructType flds \<and>
     run (parsesTo fileFooS) Inr optsFooS = Return (Inr astOut) \<and>
     Inr astOut = (Inr fileFooS_out :: string + astFile) \<and>
     Decls astOut =
       typeDecl (structTypeName optsFooS) (exportFnType optsFooS) #
       map (setterDecl (structTypeName optsFooS) (exportFnType optsFooS))
         (generatedFields (generateForUnexportedFields optsFooS)
            (skipStructFields optsFooS) flds) \<and>
     (\<forall>(fld, X)\<in>set (generatedFields (generateForUnexportedFields optsFooS)
                        (skipStructFields optsFooS) flds).
        asciiFirst X \<and> asciiFirst (structTypeName optsFooS) \<and>
        lowerFirst X = lowerFirst (structTypeName optsFooS) \<longrightarrow>
        setterDecl (structTypeName optsFooS) (exportFnType optsFooS) (fld, X) =
          FuncDecl [] (''Set'' @ upperFirst X)
            (FuncType [Field [lowerFirst X @ ''Gen''] (fieldType fld) None]
               [Field [] (Ident ((if exportFnType optsFooS
                                  then upperFirst (structTypeName optsFooS)
                                  else lowerFirst (structTypeName optsFooS)) @ ''FieldSetter''))
                  None])
            [ReturnStmt [FuncLit
               (FuncType [Field [lowerFirst X @ ''Gen'']
                  (StarExpr (Ident (structTypeName optsFooS))) None] [])
               [AssignStmt [SelectorExpr (Ident (lowerFirst X @ ''Gen'')) X]
                  token_ASSIGN [Ident (lowerFirst X @ ''Gen'')]]]] \<and>
        rhsBinding (setterDecl (structTypeName optsFooS) (exportFnType optsFooS) (fld, X)) =
          Some ClosureParam) \<and>
     (\<forall>(fld, X)\<in>set (generatedFields (generateForUnexportedFields optsFooS)
                        (skipStructFields optsFooS) flds).
        asciiFirst X \<and> asciiFirst (structTypeName optsFooS) \<and>
        lowerFirst X \<noteq> lowerFirst (structTypeName optsFooS) \<longrightarrow>
        rhsBinding (setterDecl (structTypeName optsFooS) (exportFnType optsFooS) (fld, X)) =
          Some SetterParam))"
proof -
  have "map rhsBinding (Decls fileFooS_out) = [None, Some ClosureParam, Some SetterParam]"
    by (simp add: fileFooS_out_def)
  moreover have "lowerFirst ''foo'' = lowerFirst ''Foo''"
    by code_simp
  moreover have "map rhsBinding (Decls fileAA_out) = [None, Some ClosureParam, Some SetterParam]"
    by (simp add: fileAA_out_def)
  ultimately show ?thesis
    using run_fileFooS run_fileAA shadowed_parameter [OF run_fileFooS] by (intro conjI)
qed

text \<open>
  C8, counterexample. The claim as stated fails for the struct named with the capital
  letter E with acute accent and its field named with the small letter: lower-casing
  the first character makes the two names equal, and yet the two parameters of the
  setter have different names and the right-hand side refers to the setter's parameter.
\<close>

theorem shadowed_parameter_counterexample:
  "run (parsesTo fileEE) Inr optsEE = Return (Inr fileEE_out) \<and>
   map rhsBinding (Decls fileEE_out) = [None, Some SetterParam]"
  by code_simp

text \<open>
  C9. Setter names need not be unique: for the struct with the fields \<^verbatim>\<open>foo\<close> and
  \<^verbatim>\<open>Foo\<close>, with \<^verbatim>\<open>generateForUnexportedFields\<close> true and an empty skip set, the
  run succeeds and its output has two function declarations named \<^verbatim>\<open>SetFoo\<close>, one
  for each field.
\<close>

theorem setter_names_not_unique:
  "run (parsesTo fileFoo) Inr optsFoo = Return (Inr fileFoo_out) \<and>
   map declName (Decls fileFoo_out) = [''SFieldSetter'', ''SetFoo'', ''SetFoo''] \<and>
   map assignedField (Decls fileFoo_out) = [None, Some ''foo'', Some ''Foo'']"
  by code_simp

text \<open>
  C10, amended. The unexported-field test reads the first byte of the name as a Latin-1
  character. In a successful run, a field of a supported group that is not in the skip
  set has a setter whenever that byte is not a lower-case letter of Latin-1, that is not
  in \<^verbatim>\<open>a-z\<close>, not \<^verbatim>\<open>0xB5\<close>, not in \<^verbatim>\<open>0xDF-0xF6\<close> and not in
  \<^verbatim>\<open>0xF8-0xFF\<close>, also when \<^verbatim>\<open>generateForUnexportedFields\<close> is false; and it has
  none when the byte is one of these and \<^verbatim>\<open>generateForUnexportedFields\<close> is false.
\<close>

theorem unexported_test_first_byte:
  assumes "run parser_ParseFile printer_Fprint opts = Return (Inr text)"
  shows "\<exists>astF st flds astOut.
     parser_ParseFile (definitionFile opts) = Inr astF \<and>
     findRequestedStructType astF (structTypeName opts) = Some st \<and>
     tsType st = StructType flds \<and>
     run parser_ParseFile Inr opts = Return (Inr astOut) \<and>
     printer_Fprint astOut = Inr text \<and>
     (\<forall>(fld, n)\<in>set (fieldOccurrences flds). \<forall>b rest.
        n = b # rest \<and> \<not> embedded fld \<and> \<not> referencesImportedPackage (fieldType fld) \<and>
        n \<notin> skipStructFields opts \<longrightarrow>
        (\<not> ((97 \<le> (of_char b :: nat) \<and> (of_char b :: nat) \<le> 122) \<or>
             (of_char b :: nat) = 181 \<or>
             (223 \<le> (of_char b :: nat) \<and> (of_char b :: nat) \<le> 246) \<or>
             (248 \<le> (of_char b :: nat) \<and> (of_char b :: nat) \<le> 255)) \<longrightarrow>
           (\<exists>d\<in>set (Decls astOut). assignedField d = Some n)) \<and>
        (((97 \<le> (of_char b :: nat) \<and> (of_char b :: nat) \<le> 122) \<or>
             (of_char b :: nat) = 181 \<or>
             (223 \<le> (of_char b :: nat) \<and> (of_char b :: nat) \<le> 246) \<or>
             (248 \<le> (of_char b :: nat) \<and> (of_char b :: nat) \<le> 255)) \<and>
           \<not> generateForUnexportedFields opts \<longrightarrow>
           \<not> (\<exists>d\<in>set (Decls astOut). assignedField d = Some n)))"
proof -
  from assms obtain astF st flds astOut where
    p: "parser_ParseFile (definitionFile opts) = Inr astF" and
    f: "findRequestedStructType astF (structTypeName opts) = Some st" and
    t: "tsType st = StructType flds" and
    r: "run parser_ParseFile Inr opts = Return (Inr astOut)" and
    w: "printer_Fprint astOut = Inr text" and
    d: "Decls astOut =
       typeDecl (structTypeName opts) (exportFnType opts) #
       map (setterDecl (structTypeName opts) (exportFnType opts))
         (generatedFields (generateForUnexportedFields opts) (skipStructFields opts) flds)"
    by (rule run_output)
  let ?g = "generateForUnexportedFields opts" and ?skip = "skipStructFields opts"
  have e: "(\<exists>d\<in>set (Decls astOut). assignedField d = Some n) \<longleftrightarrow>
      (\<exists>fld. (fld, n) \<in> set (fieldOccurrences flds) \<and> \<not> excluded ?g ?skip fld n)" for n
    unfolding d setter_exists_iff by (auto simp: generatedFields_def image_iff)
  have "(\<not> unicode_IsLower b \<longrightarrow> (\<exists>d\<in>set (Decls astOut). assignedField d = Some n)) \<and>
      (unicode_IsLower b \<and> \<not> ?g \<longrightarrow> \<not> (\<exists>d\<in>set (Decls astOut). assignedField d = Some n))"
    if "(fld, n) \<in> set (fieldOccurrences flds)" "n = b # rest" "\<not> embedded fld"
      "\<not> referencesImportedPackage (fieldType fld)" "n \<notin> ?skip" for fld n b rest
    unfolding e using that by (auto simp: excluded_def unexported_def)
  then have "\<forall>(fld, n)\<in>set (fieldOccurrences flds). \<forall>b rest.
        n = b # rest \<and> \<not> embedded fld \<and> \<not> referencesImportedPackage (fieldType fld) \<and>
        n \<notin> ?skip \<longrightarrow>
        (\<not> unicode_IsLower b \<longrightarrow> (\<exists>d\<in>set (Decls astOut). assignedField d = Some n)) \<and>
        (unicode_IsLower b \<and> \<not> ?g \<longrightarrow> \<not> (\<exists>d\<in>set (Decls astOut). assignedField d = Some n))"
    by blast
  then have "\<forall>(fld, n)\<in>set (fieldOccurrences flds). \<forall>b rest.
        n = b # rest \<and> \<not> embedded fld \<and> \<not> referencesImportedPackage (fieldType fld) \<and>
        n \<notin> skipStructFields opts \<longrightarrow>
        (\<not> ((97 \<le> (of_char b :: nat) \<and> (of_char b :: nat) \<le> 122) \<or>
             (of_char b :: nat) = 181 \<or>
             (223 \<le> (of_char b :: nat) \<and> (of_char b :: nat) \<le> 246) \<or>
             (248 \<le> (of_char b :: nat) \<and> (of_char b :: nat) \<le> 255)) \<longrightarrow>
           (\<exists>d\<in>set (Decls astOut). assignedField d = Some n)) \<and>
        (((97 \<le> (of_char b :: nat) \<and> (of_char b :: nat) \<le> 122) \<or>
             (of_char b :: nat) = 181 \<or>
             (223 \<le> (of_char b :: nat) \<and> (of_char b :: nat) \<le> 246) \<or>
             (248 \<le> (of_char b :: nat) \<and> (of_char b :: nat) \<le> 255)) \<and>
           \<not> generateForUnexportedFields opts \<longrightarrow>
           \<not> (\<exists>d\<in>set (Decls astOut). assignedField d = Some n))"
    unfolding unicode_IsLower_def Let_def .
  with p f t r w show ?thesis by blast
qed

theorem unexported_test_first_byte_witness:
  "run (parsesTo fileU) Inr optsA = Return (Inr fileU_out) \<and>
   map assignedField (Decls fileU_out) = [None, Some ''_x''] \<and>
   (\<exists>astF st flds astOut.
     parsesTo fileU (definitionFile optsA) = Inr astF \<and>
     findRequestedStructType astF (structTypeName optsA) = Some st \<and>
     tsType st = StructType flds \<and>
     run (parsesTo fileU) Inr optsA = Return (Inr astOut) \<and>
     Inr astOut = (Inr fileU_out :: string + astFile) \<and>
     (\<forall>(fld, n)\<in>set (fieldOccurrences flds). \<forall>b rest.
        n = b # rest \<and> \<not> embedded fld \<and> \<not> referencesImportedPackage (fieldType fld) \<and>
        n \<notin> skipStructFields optsA \<longrightarrow>
        (\<not> ((97 \<le> (of_char b :: nat) \<and> (of_char b :: nat) \<le> 122) \<or>
             (of_char b :: nat) = 181 \<or>
             (223 \<le> (of_char b :: nat) \<and> (of_char b :: nat) \<le> 246) \<or>
             (248 \<le> (of_char b :: nat) \<and> (of_char b :: nat) \<le> 255)) \<longrightarrow>
           (\<exists>d\<in>set (Decls astOut). assignedField d = Some n)) \<and>
        (((97 \<le> (of_char b :: nat) \<and> (of_char b :: nat) \<le> 122) \<or>
             (of_char b :: nat) = 181 \<or>
             (223 \<le> (of_char b :: nat) \<and> (of_char b :: nat) \<le> 246) \<or>
             (248 \<le> (of_char b :: nat) \<and> (of_char b :: nat) \<le> 255)) \<and>
           \<not> generateForUnexportedFields optsA \<longrightarrow>
           \<not> (\<exists>d\<in>set (Decls astOut). assignedField d = Some n))))"
proof -
  have "map assignedField (Decls fileU_out) = [None, Some ''_x'']"
    by (simp add: fileU_out_def)
  with run_fileU unexported_test_first_byte [OF run_fileU] show ?thesis
    by (intro conjI)
qed

text \<open>
  C10, counterexample. The claim as stated fails: the first byte \<^verbatim>\<open>0xE1\<close> of the
  name \<^verbatim>\<open>U+1E01\<close> is not an ASCII lower-case letter, and with
  \<^verbatim>\<open>generateForUnexportedFields\<close> false the successful run has no setter for
  the field.
\<close>

theorem unexported_test_counterexample:
  "\<not> (97 \<le> (of_char (hd nameU) :: nat) \<and> (of_char (hd nameU) :: nat) \<le> 122) \<and>
   \<not> generateForUnexportedFields optsA \<and>
   nameU \<notin> skipStructFields optsA \<and>
   findRequestedStructType fileU (structTypeName optsA) =
     Some (TypeSpec ''A'' (StructType
       [Field [nameU] (Ident ''int'') None, Field [''_x''] (Ident ''int'') None])) \<and>
   run (parsesTo fileU) Inr optsA = Return (Inr fileU_out) \<and>
   map assignedField (Decls fileU_out) = [None, Some ''_x'']"
  by code_simp

end
